theory Spec2Isabelle
  imports Complex_Main "HOL-Library.Word" "HOL-Library.Multiset"
begin

section \<open>Numbers and strings of the source language\<close>

text \<open>
  The program is TypeScript. Its numbers are IEEE doubles; every quantity the combat core
  computes with (seeds, ability scores, hit points, grid coordinates, costs) is an integer
  far below \<open>2 ^ 53\<close>, where double arithmetic on integers is exact, so integers are
  modelled as \<open>int\<close> and the quotient returned by the generator as an exact rational.
  A string that is hashed is a list of UTF-16 code units, as \<open>charCodeAt\<close> reads it;
  identifiers, names and dice expressions are ASCII and modelled as \<open>string\<close>.
\<close>

type_synonym js_string = "16 word list"

definition js_rem :: "int \<Rightarrow> int \<Rightarrow> int" where
  \<comment> \<open>the remainder operator \<open>%\<close>: the result has the sign of the dividend\<close>
  "js_rem a b = sgn a * (\<bar>a\<bar> mod \<bar>b\<bar>)"

definition toInt32 :: "int \<Rightarrow> int" where
  \<comment> \<open>the conversion the bitwise operators apply to their operands\<close>
  "toInt32 v = (v + 2 ^ 31) mod 2 ^ 32 - 2 ^ 31"

section \<open>The seeded generator (core/rng)\<close>

record SeededRNG =
  seed :: int

datatype seed_arg = NumSeed int | StrSeed js_string

fun hashString_from :: "int \<Rightarrow> js_string \<Rightarrow> int" where
  "hashString_from hash [] = hash"
| "hashString_from hash (c # cs) =
     hashString_from (toInt32 ((toInt32 (hash * 2 ^ 5) - hash) + uint c)) cs"

definition hashString :: "js_string \<Rightarrow> int" where
  "hashString str = \<bar>hashString_from 0 str\<bar>"

definition seedOf :: "seed_arg \<Rightarrow> int" where
  "seedOf a = (case a of StrSeed s \<Rightarrow> hashString s | NumSeed n \<Rightarrow> n)"

definition newSeededRNG :: "seed_arg option \<Rightarrow> rat \<Rightarrow> SeededRNG" where
  \<comment> \<open>the constructor; the second argument is the value \<open>Math.random()\<close> would return,
      consulted only when no seed is passed\<close>
  "newSeededRNG a r =
     (case a of
        Some s \<Rightarrow> \<lparr>seed = seedOf s\<rparr>
      | None \<Rightarrow> \<lparr>seed = \<lfloor>r * 2147483647\<rfloor>\<rparr>)"

definition setSeed :: "seed_arg \<Rightarrow> SeededRNG \<Rightarrow> SeededRNG" where
  "setSeed a g = g\<lparr>seed := seedOf a\<rparr>"

definition getSeed :: "SeededRNG \<Rightarrow> int" where
  "getSeed g = seed g"

definition rng_next :: "SeededRNG \<Rightarrow> rat \<times> SeededRNG" where
  "rng_next g =
     (let s = js_rem (seed g * 16807) 2147483647
      in (of_int (s - 1) / 2147483646, g\<lparr>seed := s\<rparr>))"

definition nextInt :: "int \<Rightarrow> int \<Rightarrow> SeededRNG \<Rightarrow> int \<times> SeededRNG" where
  "nextInt lo hi g =
     (let (r, g') = rng_next g
      in (\<lfloor>r * of_int (hi - lo + 1)\<rfloor> + lo, g'))"

definition rollDie :: "int \<Rightarrow> SeededRNG \<Rightarrow> int \<times> SeededRNG" where
  "rollDie sides g = nextInt 1 sides g"

text \<open>
  \<open>rollDice\<close> runs \<open>for (i = 0; i < count; i++)\<close>; the counter is a number, so the loop
  runs \<open>count\<close> times and not at all for a count below one.
\<close>

fun rollDice_loop :: "nat \<Rightarrow> int \<Rightarrow> int \<Rightarrow> SeededRNG \<Rightarrow> int \<times> SeededRNG" where
  "rollDice_loop 0 sides tot g = (tot, g)"
| "rollDice_loop (Suc n) sides tot g =
     (let (d, g') = rollDie sides g in rollDice_loop n sides (tot + d) g')"

definition rollDice :: "int \<Rightarrow> int \<Rightarrow> int \<Rightarrow> SeededRNG \<Rightarrow> int \<times> SeededRNG" where
  "rollDice cnt sides modifier g = rollDice_loop (nat cnt) sides modifier g"

text \<open>
  \<open>shuffle\<close> copies the array and swaps \<open>result[i]\<close> with \<open>result[j]\<close> for \<open>i\<close> from the
  last index down to 1. The index \<open>j\<close> is whatever \<open>nextInt(0, i)\<close> returns; it never
  exceeds \<open>i\<close> but is negative for a generator whose state is not positive. Reading an
  array outside its elements yields \<open>undefined\<close> and writing at a negative index sets a
  property without changing the elements, so the working array is a function from every
  integer index to an optional value, \<open>None\<close> standing for \<open>undefined\<close>.
\<close>

fun shuffle_loop :: "nat \<Rightarrow> (int \<Rightarrow> 'a option) \<Rightarrow> SeededRNG \<Rightarrow> (int \<Rightarrow> 'a option) \<times> SeededRNG" where
  "shuffle_loop 0 result g = (result, g)"
| "shuffle_loop (Suc i) result g =
     (let (j, g') = nextInt 0 (int (Suc i)) g;
          vi = result (int (Suc i));
          vj = result j
      in shuffle_loop i ((result(int (Suc i) := vj))(j := vi)) g')"

definition arrayOf :: "'a list \<Rightarrow> int \<Rightarrow> 'a option" where
  "arrayOf xs k = (if 0 \<le> k \<and> k < int (length xs) then Some (xs ! nat k) else None)"

definition shuffle :: "'a list \<Rightarrow> SeededRNG \<Rightarrow> 'a option list \<times> SeededRNG" where
  "shuffle array g =
     (let (result, g') = shuffle_loop (length array - 1) (arrayOf array) g
      in (map (\<lambda>k. result (int k)) [0 ..< length array], g'))"


subsection \<open>Observing a generator\<close>

text \<open>
  A test of reproducibility drives a generator through a sequence of calls and records
  what each call returns. The calls named by the specification are \<open>next()\<close>,
  \<open>rollDie(sides)\<close> and \<open>shuffle(array)\<close>.
\<close>

datatype 'a rng_call = CallNext | CallRollDie int | CallShuffle "'a list"

datatype 'a rng_value = Number rat | Integer int | Array "'a option list"

fun perform :: "'a rng_call \<Rightarrow> SeededRNG \<Rightarrow> 'a rng_value \<times> SeededRNG" where
  "perform CallNext g = (let (r, g') = rng_next g in (Number r, g'))"
| "perform (CallRollDie sides) g = (let (n, g') = rollDie sides g in (Integer n, g'))"
| "perform (CallShuffle xs) g = (let (ys, g') = shuffle xs g in (Array ys, g'))"

fun performAll :: "'a rng_call list \<Rightarrow> SeededRNG \<Rightarrow> 'a rng_value list" where
  "performAll [] g = []"
| "performAll (c # cs) g = (let (v, g') = perform c g in v # performAll cs g')"


subsection \<open>Dice expressions\<close>

text \<open>
  \<open>parseDiceString\<close> searches the string for the first match of the regular expression
  \<open>(\d+)?d(\d+)([+\-]\d+)?\<close>. At a given start the optional first group takes the
  longest run of digits (a shorter run would be followed by a digit, not by \<open>d\<close>), the
  letter \<open>d\<close> must follow, then at least one digit, then a sign with at least one digit
  if present. The search moves the start forward one character at a time.
\<close>

definition isDigit :: "char \<Rightarrow> bool" where
  "isDigit c = (c \<in> set ''0123456789'')"

definition digitValue :: "char \<Rightarrow> int" where
  "digitValue c = int (of_char c) - 48"

definition parseDigits :: "string \<Rightarrow> int" where
  "parseDigits ds = foldl (\<lambda>a c. 10 * a + digitValue c) 0 ds"

definition parseInt :: "string \<Rightarrow> int" where
  \<comment> \<open>\<open>parseInt\<close> on the strings the groups can hold: digits with an optional sign\<close>
  "parseInt str =
     (case str of
        [] \<Rightarrow> 0
      | c # cs \<Rightarrow>
          if c = CHR ''-'' then - parseDigits cs
          else if c = CHR ''+'' then parseDigits cs
          else parseDigits (c # cs))"

definition matchDiceAt :: "string \<Rightarrow> (string option \<times> string \<times> string option) option" where
  "matchDiceAt str =
     (let g1 = takeWhile isDigit str; r = dropWhile isDigit str
      in case r of
           [] \<Rightarrow> None
         | c # r1 \<Rightarrow>
             if c \<noteq> CHR ''d'' then None
             else
               let g2 = takeWhile isDigit r1; r2 = dropWhile isDigit r1
               in if g2 = [] then None
                  else Some (if g1 = [] then None else Some g1, g2,
                    (case r2 of
                       [] \<Rightarrow> None
                     | sg # r3 \<Rightarrow>
                         if (sg = CHR ''+'' \<or> sg = CHR ''-'') \<and> takeWhile isDigit r3 \<noteq> []
                         then Some (sg # takeWhile isDigit r3) else None)))"

fun matchDice :: "string \<Rightarrow> (string option \<times> string \<times> string option) option" where
  "matchDice [] = None"
| "matchDice (c # cs) =
     (case matchDiceAt (c # cs) of Some m \<Rightarrow> Some m | None \<Rightarrow> matchDice cs)"

definition parseDiceString :: "string \<Rightarrow> SeededRNG \<Rightarrow> int \<times> SeededRNG" where
  "parseDiceString diceString g =
     (case matchDice diceString of
        None \<Rightarrow> (0, g)
      | Some (m1, m2, m3) \<Rightarrow>
          rollDice (parseInt (case m1 of Some c \<Rightarrow> c | None \<Rightarrow> ''1''))
                   (parseInt m2)
                   (parseInt (case m3 of Some m \<Rightarrow> m | None \<Rightarrow> ''0'')) g)"

section \<open>Data model (core/types)\<close>

text \<open>
  The records keep the fields the combat core reads or writes. Fields of \<open>Character\<close>
  that no modelled function touches (class, experience, inventory, equipment, gold, known
  and prepared spells) are left out. Several interfaces of the source use the same field
  name (\<open>id\<close>, \<open>name\<close>, \<open>type\<close>, \<open>position\<close>, \<open>damage\<close>); a prefix tells them apart
  here, and \<open>round\<close> is \<open>roundNumber\<close>.
\<close>

datatype Position = Position (pos_x: int) (pos_y: int)

record Stats =
  strength :: int
  dexterity :: int
  constitution :: int
  intelligence :: int
  wisdom :: int
  charisma :: int

record Pool =
  current :: int
  maximum :: int

record Health = Pool +
  temporary :: int

record Resources =
  spellSlots :: "(int \<times> Pool) list"

datatype CreatureType = Player | Companion | Enemy

datatype EffectType = Buff | Debuff | Neutral

record EffectSpec =
  effectType :: EffectType
  modifiers :: "(string \<times> int) list"
  conditions :: "string list option"

record StatusEffect =
  effect_id :: string
  effect_name :: string
  duration :: int
  effect :: EffectSpec

record Character =
  char_id :: string
  char_name :: string
  level :: int
  stats :: Stats
  health :: Health
  armorClass :: int
  speed :: int
  resources :: Resources
  position :: Position
  creatureType :: CreatureType
  statusEffects :: "StatusEffect list"
  initiative :: int
  hasUsedAction :: bool
  hasUsedBonusAction :: bool
  hasUsedReaction :: bool
  movementUsed :: int

datatype ActionType =
  Move | Attack | Spell | Dash | Dodge | Help | Hide | Ready | Disengage

datatype Target = AtPosition Position | AtCharacter string

record CombatAction =
  action_id :: string
  action_type :: ActionType
  characterId :: string
  target :: "Target option"
  path :: "Position list option"
  spellId :: "string option"
  itemId :: "string option"
  weaponId :: "string option"
  damage :: "int option"
  attackRoll :: "int option"
  targetAC :: "int option"
  description :: string

datatype EntryType =
  MoveEntry | AttackEntry | SpellEntry | DamageEntry | HealEntry | StatusEntry
  | TurnEntry | RoundEntry

record EntryDetails =
  detail_attackRoll :: "int option"
  detail_damage :: "int option"
  targetId :: "string option"
  targetName :: "string option"
  spellName :: "string option"
  weaponName :: "string option"
  fromPosition :: "Position option"
  toPosition :: "Position option"
  detail_targetAC :: "int option"

text \<open>
  \<open>EntryBody\<close> is \<open>Omit<CombatLogEntry, 'id' | 'timestamp'>\<close>, what the logging
  methods hand to \<open>addEntry\<close>; \<open>CombatLogEntry\<close> adds the two generated fields.
\<close>

record EntryBody =
  entry_type :: EntryType
  entry_characterId :: string
  characterName :: string
  message :: string
  details :: "EntryDetails option"

record CombatLogEntry = EntryBody +
  entry_id :: string
  timestamp :: int

record AreaEffect =
  area_position :: Position
  area_effect :: StatusEffect
  area_duration :: int

record Battlefield =
  width :: int
  height :: int
  obstacles :: "Position list"
  effects :: "AreaEffect list"

datatype Side = Players | Enemies

record CombatState =
  roundNumber :: int
  turn :: int
  characters :: "Character list"
  initiativeOrder :: "string list"
  currentCharacterId :: "string option"
  combatLog :: "CombatLogEntry list"
  battlefield :: Battlefield
  isActive :: bool
  victor :: "Side option"


section \<open>Ability scores (core/stats)\<close>

definition getModifier :: "int \<Rightarrow> int" where
  "getModifier score = (score - 10) div 2"

definition getProficiencyBonus :: "int \<Rightarrow> int" where
  \<comment> \<open>\<open>Math.ceil(level / 4) + 1\<close>\<close>
  "getProficiencyBonus lvl = - ((- lvl) div 4) + 1"

section \<open>Weapon and spell tables (data/weapons, data/spells)\<close>

text \<open>
  Every entry of \<open>WEAPONS\<close> writes the key \<open>properties\<close> twice: first the array of
  weapon properties that \<open>WeaponData\<close> declares, then the object
  \<open>{ damage: { dice, type } }\<close> that \<open>Item\<close> declares. In an object literal the later
  occurrence replaces the earlier one, so the value of \<open>properties\<close> of every weapon of
  the table is the object, which has no method \<open>includes\<close>. \<open>WeaponProperties\<close> keeps
  both shapes apart. Lookups are by own key; the members every object inherits
  (\<open>constructor\<close>, \<open>toString\<close> and the like) are not modelled as identifiers.
\<close>

datatype WeaponCategory = Melee | Ranged

datatype WeaponProperties = PropertyList "string list" | PropertyObject

record WeaponData =
  weapon_id :: string
  weapon_name :: string
  damage_dice :: string
  category :: WeaponCategory
  properties :: WeaponProperties

definition mkWeapon :: "string \<Rightarrow> string \<Rightarrow> string \<Rightarrow> WeaponCategory \<Rightarrow> string \<times> WeaponData" where
  "mkWeapon k n d c =
     (k, \<lparr>weapon_id = k, weapon_name = n, damage_dice = d, category = c,
          properties = PropertyObject\<rparr>)"

definition WEAPONS :: "(string \<times> WeaponData) list" where
  "WEAPONS =
     [mkWeapon ''dagger'' ''Dagger'' ''1d4'' Melee,
      mkWeapon ''shortsword'' ''Shortsword'' ''1d6'' Melee,
      mkWeapon ''longsword'' ''Longsword'' ''1d8'' Melee,
      mkWeapon ''greataxe'' ''Greataxe'' ''1d12'' Melee,
      mkWeapon ''shortbow'' ''Shortbow'' ''1d6'' Ranged,
      mkWeapon ''longbow'' ''Longbow'' ''1d8'' Ranged,
      mkWeapon ''handaxe'' ''Handaxe'' ''1d6'' Melee,
      mkWeapon ''quarterstaff'' ''Quarterstaff'' ''1d6'' Melee,
      mkWeapon ''crossbow_light'' ''Light Crossbow'' ''1d8'' Ranged,
      mkWeapon ''warhammer'' ''Warhammer'' ''1d8'' Melee]"

definition getWeaponById :: "string \<Rightarrow> WeaponData option" where
  "getWeaponById k = map_of WEAPONS k"

text \<open>
  \<open>SPELLS\<close> is keyed by the property names of the literal, which are in camel case,
  while the \<open>id\<close> fields are in snake case: \<open>SPELLS['magic_missile']\<close> is undefined and
  \<open>SPELLS['magicMissile']\<close> is the spell whose id is \<open>magic_missile\<close>.
\<close>

record SpellData =
  spell_id :: string
  spell_name :: string
  spell_level :: int

definition mkSpell :: "string \<Rightarrow> string \<Rightarrow> string \<Rightarrow> int \<Rightarrow> string \<times> SpellData" where
  "mkSpell k i n l = (k, \<lparr>spell_id = i, spell_name = n, spell_level = l\<rparr>)"

definition SPELLS :: "(string \<times> SpellData) list" where
  "SPELLS =
     [mkSpell ''firebolt'' ''firebolt'' ''Fire Bolt'' 0,
      mkSpell ''magicMissile'' ''magic_missile'' ''Magic Missile'' 1,
      mkSpell ''healingWord'' ''healing_word'' ''Healing Word'' 1,
      mkSpell ''cureWounds'' ''cure_wounds'' ''Cure Wounds'' 1,
      mkSpell ''shield'' ''shield'' ''Shield'' 1,
      mkSpell ''burningHands'' ''burning_hands'' ''Burning Hands'' 1,
      mkSpell ''holdPerson'' ''hold_person'' ''Hold Person'' 2,
      mkSpell ''fireball'' ''fireball'' ''Fireball'' 3,
      mkSpell ''lightningBolt'' ''lightning_bolt'' ''Lightning Bolt'' 3,
      mkSpell ''bless'' ''bless'' ''Bless'' 1,
      mkSpell ''spiritualWeapon'' ''spiritual_weapon'' ''Spiritual Weapon'' 2,
      mkSpell ''web'' ''web'' ''Web'' 2,
      mkSpell ''mistyStep'' ''misty_step'' ''Misty Step'' 2,
      mkSpell ''counterspell'' ''counterspell'' ''Counterspell'' 3,
      mkSpell ''haste'' ''haste'' ''Haste'' 3]"

section \<open>Attack resolution (systems/combatLog, rollAttack)\<close>

datatype error = TypeError

record AttackResult =
  hit :: bool
  result_attackRoll :: int
  result_damage :: int

definition lookupWeapon :: "string option \<Rightarrow> WeaponData option" where
  \<comment> \<open>\<open>weaponId ? getWeaponById(weaponId) : null\<close>; the empty string is falsy\<close>
  "lookupWeapon wid =
     (case wid of None \<Rightarrow> None | Some k \<Rightarrow> if k = [] then None else getWeaponById k)"

definition includesFinesse :: "WeaponData option \<Rightarrow> error + bool" where
  \<comment> \<open>\<open>weapon?.properties.includes('finesse')\<close>\<close>
  "includesFinesse weapon =
     (case weapon of
        None \<Rightarrow> Inr False
      | Some w \<Rightarrow>
          (case properties w of
             PropertyList ps \<Rightarrow> Inr (''finesse'' \<in> set ps)
           | PropertyObject \<Rightarrow> Inl TypeError))"

definition isRanged :: "WeaponData option \<Rightarrow> bool" where
  \<comment> \<open>\<open>weapon?.category === 'ranged'\<close>\<close>
  "isRanged weapon = (case weapon of None \<Rightarrow> False | Some w \<Rightarrow> category w = Ranged)"

definition damageDiceOf :: "WeaponData option \<Rightarrow> string" where
  \<comment> \<open>\<open>weapon?.damage?.dice || '1d4'\<close>\<close>
  "damageDiceOf weapon =
     (case weapon of
        None \<Rightarrow> ''1d4''
      | Some w \<Rightarrow> if damage_dice w = [] then ''1d4'' else damage_dice w)"

definition attackBonusOf :: "Character \<Rightarrow> WeaponData option \<Rightarrow> bool \<Rightarrow> int" where
  "attackBonusOf attacker weapon finesse =
     (if finesse
      then max (getModifier (strength (stats attacker))) (getModifier (dexterity (stats attacker)))
      else if isRanged weapon then getModifier (dexterity (stats attacker))
      else getModifier (strength (stats attacker)))
     + (- ((- level attacker) div 4) + 1)"

definition damageModifierOf :: "Character \<Rightarrow> WeaponData option \<Rightarrow> int" where
  "damageModifierOf attacker weapon =
     (if isRanged weapon then getModifier (dexterity (stats attacker))
      else getModifier (strength (stats attacker)))"

definition rollAttack ::
  "Character \<Rightarrow> Character \<Rightarrow> string option \<Rightarrow> SeededRNG \<Rightarrow> error + (AttackResult \<times> SeededRNG)" where
  "rollAttack attacker tgt wid g =
     (let weapon = lookupWeapon wid
      in case includesFinesse weapon of
           Inl e \<Rightarrow> Inl e
         | Inr finesse \<Rightarrow>
             let attackBonus = attackBonusOf attacker weapon finesse;
                 (d20Roll, g1) = rollDie 20 g;
                 roll = d20Roll + attackBonus
             in if roll \<ge> armorClass tgt
                then
                  let damageDice = damageDiceOf weapon;
                      (dmg, g2) = parseDiceString damageDice g1;
                      dmg1 = max 1 (dmg + damageModifierOf attacker weapon)
                  in if d20Roll = 20
                     then
                       let (critDamage, g3) = parseDiceString damageDice g2
                       in Inr (\<lparr>hit = True, result_attackRoll = roll,
                                 result_damage = dmg1 + critDamage\<rparr>, g3)
                     else Inr (\<lparr>hit = True, result_attackRoll = roll,
                                 result_damage = dmg1\<rparr>, g2)
                else Inr (\<lparr>hit = False, result_attackRoll = roll, result_damage = 0\<rparr>, g1))"

section \<open>The combat log (systems/combatLog, CombatLogger)\<close>

text \<open>
  The engine, its logger and the process-wide generator \<open>globalRNG\<close> are mutable
  objects; \<open>World\<close> holds their state and every operation returns the world it leaves.
  \<open>Date.now()\<close> and \<open>Math.random()\<close> come from outside the program: \<open>Env\<close> gives the
  value of the k-th call of each, and the world counts the calls made so far.
\<close>

record Env =
  dateNow :: "nat \<Rightarrow> int"
  mathRandom :: "nat \<Rightarrow> rat"

record World =
  combatState :: CombatState
  logger :: "CombatLogEntry list"
  globalRNG :: SeededRNG
  dateNowCalls :: nat
  mathRandomCalls :: nat

fun showNat :: "nat \<Rightarrow> string" where
  "showNat n =
     (if n < 10 then [''0123456789'' ! n]
      else showNat (n div 10) @ [''0123456789'' ! (n mod 10)])"

definition showInt :: "int \<Rightarrow> string" where
  "showInt i = (if i < 0 then CHR ''-'' # showNat (nat (- i)) else showNat (nat i))"

definition showOptInt :: "int option \<Rightarrow> string" where
  "showOptInt v = (case v of None \<Rightarrow> ''undefined'' | Some i \<Rightarrow> showInt i)"

definition slice_last :: "nat \<Rightarrow> 'a list \<Rightarrow> 'a list" where
  \<comment> \<open>\<open>xs.slice(-n)\<close>\<close>
  "slice_last n xs = drop (length xs - n) xs"

definition addEntry :: "Env \<Rightarrow> EntryBody \<Rightarrow> World \<Rightarrow> World" where
  "addEntry env entry w =
     (let t1 = dateNow env (dateNowCalls w);
          (n, g') = nextInt 1000 9999 (globalRNG w);
          t2 = dateNow env (dateNowCalls w + 1);
          e = EntryBody.extend entry
                (CombatLogEntry.fields (''log_'' @ showInt t1 @ ''_'' @ showInt n) t2);
          pushed = logger w @ [e]
      in w\<lparr>logger := (if length pushed > 100 then slice_last 50 pushed else pushed),
           globalRNG := g',
           dateNowCalls := dateNowCalls w + 2\<rparr>)"

definition noDetails :: EntryDetails where
  "noDetails =
     \<lparr>detail_attackRoll = None, detail_damage = None, targetId = None, targetName = None,
      spellName = None, weaponName = None, fromPosition = None, toPosition = None,
      detail_targetAC = None\<rparr>"

definition logTurnStart :: "Env \<Rightarrow> Character \<Rightarrow> World \<Rightarrow> World" where
  "logTurnStart env c w =
     addEntry env
       \<lparr>entry_type = TurnEntry, entry_characterId = char_id c, characterName = char_name c,
        message = char_name c @ [CHR 0x27] @ ''s turn begins'', details = None\<rparr> w"

definition logRoundStart :: "Env \<Rightarrow> int \<Rightarrow> World \<Rightarrow> World" where
  "logRoundStart env r w =
     addEntry env
       \<lparr>entry_type = RoundEntry, entry_characterId = [], characterName = [],
        message = ''Round '' @ showInt r @ '' begins'', details = None\<rparr> w"

definition logMovement :: "Env \<Rightarrow> Character \<Rightarrow> Position \<Rightarrow> Position \<Rightarrow> World \<Rightarrow> World" where
  "logMovement env c fromPos toPos w =
     addEntry env
       \<lparr>entry_type = MoveEntry, entry_characterId = char_id c, characterName = char_name c,
        message = char_name c @ '' moves from ('' @ showInt (pos_x fromPos) @ '', ''
                  @ showInt (pos_y fromPos) @ '') to ('' @ showInt (pos_x toPos) @ '', ''
                  @ showInt (pos_y toPos) @ '')'',
        details = Some (noDetails\<lparr>fromPosition := Some fromPos, toPosition := Some toPos\<rparr>)\<rparr> w"

definition weaponNameOf :: "string option \<Rightarrow> string" where
  \<comment> \<open>\<open>weapon?.name || 'unarmed strike'\<close>\<close>
  "weaponNameOf wid =
     (case lookupWeapon wid of
        None \<Rightarrow> ''unarmed strike''
      | Some wp \<Rightarrow> if weapon_name wp = [] then ''unarmed strike'' else weapon_name wp)"

definition logAttack ::
  "Env \<Rightarrow> Character \<Rightarrow> Character \<Rightarrow> CombatAction \<Rightarrow> bool \<Rightarrow> int \<Rightarrow> World \<Rightarrow> World" where
  "logAttack env attacker tgt action isHit dmg w =
     (let wname = weaponNameOf (weaponId action)
      in if isHit
         then addEntry env
           \<lparr>entry_type = AttackEntry, entry_characterId = char_id attacker,
            characterName = char_name attacker,
            message = char_name attacker @ '' hits '' @ char_name tgt @ '' with '' @ wname
                      @ '' for '' @ showInt dmg @ '' damage'',
            details = Some (noDetails\<lparr>targetId := Some (char_id tgt),
                        targetName := Some (char_name tgt), weaponName := Some wname,
                        detail_damage := Some dmg,
                        detail_attackRoll := attackRoll action\<rparr>)\<rparr> w
         else addEntry env
           \<lparr>entry_type = AttackEntry, entry_characterId = char_id attacker,
            characterName = char_name attacker,
            message = char_name attacker @ '' misses '' @ char_name tgt @ '' with '' @ wname
                      @ '' (rolled '' @ showOptInt (attackRoll action) @ '' vs AC ''
                      @ showOptInt (targetAC action) @ '')'',
            details = Some (noDetails\<lparr>targetId := Some (char_id tgt),
                        targetName := Some (char_name tgt), weaponName := Some wname,
                        detail_attackRoll := attackRoll action,
                        detail_targetAC := targetAC action\<rparr>)\<rparr> w)"

definition logSpellCast :: "Env \<Rightarrow> Character \<Rightarrow> string \<Rightarrow> Character option \<Rightarrow> World \<Rightarrow> World" where
  "logSpellCast env caster sid tgt w =
     (case map_of SPELLS sid of
        None \<Rightarrow> w
      | Some sp \<Rightarrow>
          addEntry env
            \<lparr>entry_type = SpellEntry, entry_characterId = char_id caster,
             characterName = char_name caster,
             message = char_name caster @ '' casts '' @ spell_name sp
                       @ (case tgt of Some t \<Rightarrow> '' on '' @ char_name t | None \<Rightarrow> []),
             details = Some (noDetails\<lparr>spellName := Some (spell_name sp),
                         targetId := map_option char_id tgt,
                         targetName := map_option char_name tgt\<rparr>)\<rparr> w)"

definition logDamage :: "Env \<Rightarrow> Character \<Rightarrow> int \<Rightarrow> string option \<Rightarrow> World \<Rightarrow> World" where
  "logDamage env c dmg damageType w =
     addEntry env
       \<lparr>entry_type = DamageEntry, entry_characterId = char_id c, characterName = char_name c,
        message = char_name c @ '' takes '' @ showInt dmg
                  @ (case damageType of None \<Rightarrow> [] | Some t \<Rightarrow> if t = [] then [] else '' '' @ t)
                  @ '' damage'',
        details = Some (noDetails\<lparr>detail_damage := Some dmg\<rparr>)\<rparr> w"

definition logDeath :: "Env \<Rightarrow> Character \<Rightarrow> World \<Rightarrow> World" where
  "logDeath env c w =
     addEntry env
       \<lparr>entry_type = StatusEntry, entry_characterId = char_id c, characterName = char_name c,
        message = char_name c @ '' falls unconscious'', details = None\<rparr> w"

section \<open>The combat engine (combat/combatEngine)\<close>

text \<open>
  A \<open>Character\<close> variable of the source is a reference to an element of
  \<open>combatState.characters\<close>, found by \<open>getCharacterById\<close> as the first element with the
  given id. No operation changes an id, so a write through such a reference is a write to
  the first element with that id: \<open>modifyCharacter\<close>.
\<close>

definition getCharacterById :: "CombatState \<Rightarrow> string \<Rightarrow> Character option" where
  "getCharacterById cs k = find (\<lambda>c. char_id c = k) (characters cs)"

definition getCurrentCharacter :: "CombatState \<Rightarrow> Character option" where
  "getCurrentCharacter cs =
     (case currentCharacterId cs of None \<Rightarrow> None | Some k \<Rightarrow> getCharacterById cs k)"

fun modifyCharacter :: "string \<Rightarrow> (Character \<Rightarrow> Character) \<Rightarrow> Character list \<Rightarrow> Character list" where
  "modifyCharacter k f [] = []"
| "modifyCharacter k f (c # cs) =
     (if char_id c = k then f c # cs else c # modifyCharacter k f cs)"

definition updateCharacter :: "string \<Rightarrow> (Character \<Rightarrow> Character) \<Rightarrow> World \<Rightarrow> World" where
  "updateCharacter k f w =
     w\<lparr>combatState := (combatState w)
          \<lparr>characters := modifyCharacter k f (characters (combatState w))\<rparr>\<rparr>"

fun rollInitiatives :: "Character list \<Rightarrow> SeededRNG \<Rightarrow> Character list \<times> SeededRNG" where
  "rollInitiatives [] g = ([], g)"
| "rollInitiatives (c # cs) g =
     (let dexModifier = (dexterity (stats c) - 10) div 2;
          (d, g1) = rollDie 20 g;
          (cs', g2) = rollInitiatives cs g1
      in (c\<lparr>initiative := d + dexModifier\<rparr> # cs', g2))"

text \<open>
  \<open>Array.prototype.sort\<close> sorts the array it is called on and is stable; with the
  comparator \<open>b.initiative - a.initiative\<close> the order is by descending initiative. With no
  characters \<open>initiativeOrder[0]\<close> is undefined, \<open>getCurrentCharacter()\<close> is null and
  \<open>logTurnStart\<close> raises a type error when it reads the id.
\<close>

definition initializeCombat :: "Env \<Rightarrow> World \<Rightarrow> (error + unit) \<times> World" where
  "initializeCombat env w =
     (let cs = combatState w;
          (rolled, g1) = rollInitiatives (characters cs) (globalRNG w);
          sorted = sort_key (\<lambda>c. - initiative c) rolled;
          order = map char_id sorted;
          cs1 = cs\<lparr>characters := sorted, initiativeOrder := order,
                   currentCharacterId := (case order of [] \<Rightarrow> None | k # _ \<Rightarrow> Some k),
                   combatLog := []\<rparr>;
          w1 = logRoundStart env (roundNumber cs1) (w\<lparr>combatState := cs1, globalRNG := g1\<rparr>)
      in case getCurrentCharacter (combatState w1) of
           None \<Rightarrow> (Inl TypeError, w1)
         | Some c \<Rightarrow> (Inr (), logTurnStart env c w1))"

definition processMovement :: "Env \<Rightarrow> Character \<Rightarrow> CombatAction \<Rightarrow> World \<Rightarrow> bool \<times> World" where
  "processMovement env character action w =
     (case target action of
        None \<Rightarrow> (False, w)
      | Some (AtCharacter _) \<Rightarrow> (False, w)
      | Some (AtPosition p) \<Rightarrow>
          let oldPosition = position character;
              distance = \<bar>pos_x oldPosition - pos_x p\<bar> + \<bar>pos_y oldPosition - pos_y p\<bar>;
              w1 = updateCharacter (char_id character)
                     (\<lambda>c. c\<lparr>position := p, movementUsed := movementUsed c + distance * 5\<rparr>) w
          in (True, logMovement env character oldPosition p w1))"

definition applyDamage :: "int \<Rightarrow> Character \<Rightarrow> Character" where
  \<comment> \<open>\<open>target.health.current = Math.max(0, target.health.current - damage)\<close>\<close>
  "applyDamage dmg c = c\<lparr>health := (health c)\<lparr>current := max 0 (current (health c) - dmg)\<rparr>\<rparr>"

definition processAttack ::
  "Env \<Rightarrow> Character \<Rightarrow> CombatAction \<Rightarrow> World \<Rightarrow> (error + bool) \<times> CombatAction \<times> World" where
  "processAttack env character action w =
     (case target action of
        None \<Rightarrow> (Inr False, action, w)
      | Some (AtPosition _) \<Rightarrow> (Inr False, action, w)
      | Some (AtCharacter tid) \<Rightarrow>
          if tid = [] then (Inr False, action, w)
          else
            (case getCharacterById (combatState w) tid of
               None \<Rightarrow> (Inr False, action, w)
             | Some tgt \<Rightarrow>
                 let w1 = updateCharacter (char_id character) (\<lambda>c. c\<lparr>hasUsedAction := True\<rparr>) w
                 in case rollAttack character tgt (weaponId action) (globalRNG w1) of
                      Inl e \<Rightarrow> (Inl e, action, w1)
                    | Inr (res, g1) \<Rightarrow>
                        let action1 = action\<lparr>attackRoll := Some (result_attackRoll res),
                                        targetAC := Some (armorClass tgt),
                                        damage := Some (result_damage res)\<rparr>;
                            w2 = logAttack env character tgt action1 (hit res) (result_damage res)
                                   (w1\<lparr>globalRNG := g1\<rparr>)
                        in if hit res
                           then
                             let w3 = updateCharacter tid (applyDamage (result_damage res)) w2;
                                 w4 = logDamage env tgt (result_damage res) None w3
                             in if max 0 (current (health tgt) - result_damage res) = 0
                                then (Inr True, action1, logDeath env tgt w4)
                                else (Inr True, action1, w4)
                           else (Inr True, action1, w2)))"

definition spellDamage :: "Env \<Rightarrow> Character \<Rightarrow> int \<Rightarrow> string \<Rightarrow> World \<Rightarrow> World" where
  \<comment> \<open>the shared tail of the two damage branches of \<open>processSpell\<close>\<close>
  "spellDamage env tgt dmg damageType w =
     (let w1 = updateCharacter (char_id tgt) (applyDamage dmg) w;
          w2 = logDamage env tgt dmg (Some damageType) w1
      in if max 0 (current (health tgt) - dmg) = 0 then logDeath env tgt w2 else w2)"

definition processSpell :: "Env \<Rightarrow> Character \<Rightarrow> CombatAction \<Rightarrow> World \<Rightarrow> bool \<times> World" where
  "processSpell env character action w =
     (case spellId action of
        None \<Rightarrow> (False, w)
      | Some sid \<Rightarrow>
          if sid = [] then (False, w)
          else
            let w1 = updateCharacter (char_id character) (\<lambda>c. c\<lparr>hasUsedAction := True\<rparr>) w;
                tgt = (case target action of
                         Some (AtCharacter tid) \<Rightarrow>
                           if tid = [] then None else getCharacterById (combatState w1) tid
                       | _ \<Rightarrow> None);
                w2 = logSpellCast env character sid tgt w1
            in case tgt of
                 None \<Rightarrow> (True, w2)
               | Some t \<Rightarrow>
                   if sid = ''magic_missile''
                   then
                     let r = mathRandom env (mathRandomCalls w2);
                         dmg = 3 + \<lfloor>r * 4\<rfloor> + 1
                     in (True, spellDamage env t dmg ''force''
                                 (w2\<lparr>mathRandomCalls := mathRandomCalls w2 + 1\<rparr>))
                   else if sid = ''firebolt''
                   then
                     let r = mathRandom env (mathRandomCalls w2);
                         dmg = \<lfloor>r * 10\<rfloor> + 1
                     in (True, spellDamage env t dmg ''fire''
                                 (w2\<lparr>mathRandomCalls := mathRandomCalls w2 + 1\<rparr>))
                   else (True, w2))"

definition processDash :: "Character \<Rightarrow> World \<Rightarrow> bool \<times> World" where
  "processDash character w =
     (True, updateCharacter (char_id character)
              (\<lambda>c. c\<lparr>hasUsedAction := True, speed := speed c * 2\<rparr>) w)"

definition dodgeEffect :: StatusEffect where
  "dodgeEffect =
     \<lparr>effect_id = ''dodge'', effect_name = ''Dodging'', duration = 1,
      effect = \<lparr>effectType = Buff, modifiers = [(''ac'', 2)], conditions = None\<rparr>\<rparr>"

definition processDodge :: "Character \<Rightarrow> World \<Rightarrow> bool \<times> World" where
  "processDodge character w =
     (True, updateCharacter (char_id character)
              (\<lambda>c. c\<lparr>hasUsedAction := True, statusEffects := statusEffects c @ [dodgeEffect]\<rparr>) w)"

definition processAction ::
  "Env \<Rightarrow> CombatAction \<Rightarrow> World \<Rightarrow> (error + bool) \<times> CombatAction \<times> World" where
  "processAction env action w =
     (case getCharacterById (combatState w) (characterId action) of
        None \<Rightarrow> (Inr False, action, w)
      | Some character \<Rightarrow>
          (case action_type action of
             Move \<Rightarrow> (let (b, w') = processMovement env character action w in (Inr b, action, w'))
           | Attack \<Rightarrow> processAttack env character action w
           | Spell \<Rightarrow> (let (b, w') = processSpell env character action w in (Inr b, action, w'))
           | Dash \<Rightarrow> (let (b, w') = processDash character w in (Inr b, action, w'))
           | Dodge \<Rightarrow> (let (b, w') = processDodge character w in (Inr b, action, w'))
           | _ \<Rightarrow> (Inr False, action, w)))"

fun indexOf :: "'a list \<Rightarrow> 'a \<Rightarrow> int" where
  "indexOf [] v = - 1"
| "indexOf (u # us) v =
     (if u = v then 0 else (let k = indexOf us v in if k < 0 then - 1 else k + 1))"

text \<open>
  In \<open>endTurn\<close> the remainder by the length of an empty initiative order is \<open>NaN\<close>: the
  element read at that index is undefined and the comparison with 0 is false. \<open>nextIndex\<close>
  is \<open>None\<close> in that case.
\<close>

definition endTurn :: "Env \<Rightarrow> World \<Rightarrow> World" where
  "endTurn env w =
     (let w1 = (case getCurrentCharacter (combatState w) of
                  None \<Rightarrow> w
                | Some c \<Rightarrow>
                    updateCharacter (char_id c)
                      (\<lambda>c. c\<lparr>hasUsedAction := False, hasUsedBonusAction := False,
                              hasUsedReaction := False, movementUsed := 0\<rparr>) w);
          cs = combatState w1;
          order = initiativeOrder cs;
          currentIndex = (case currentCharacterId cs of None \<Rightarrow> - 1 | Some k \<Rightarrow> indexOf order k);
          nextIndex = (if order = [] then None
                       else Some (js_rem (currentIndex + 1) (int (length order))));
          cs1 = cs\<lparr>currentCharacterId :=
                      (case nextIndex of None \<Rightarrow> None | Some k \<Rightarrow> Some (order ! nat k)),
                   turn := turn cs + 1\<rparr>;
          w2 = (if nextIndex = Some 0
                then logRoundStart env (roundNumber cs1 + 1)
                       (w1\<lparr>combatState := cs1\<lparr>roundNumber := roundNumber cs1 + 1\<rparr>\<rparr>)
                else w1\<lparr>combatState := cs1\<rparr>)
      in case getCurrentCharacter (combatState w2) of
           None \<Rightarrow> w2
         | Some c \<Rightarrow> logTurnStart env c w2)"

definition checkCombatEnd :: "World \<Rightarrow> Side option \<times> World" where
  "checkCombatEnd w =
     (let cs = combatState w;
          alivePlayers = filter (\<lambda>c. (creatureType c = Player \<or> creatureType c = Companion)
                                      \<and> current (health c) > 0) (characters cs);
          aliveEnemies = filter (\<lambda>c. creatureType c = Enemy \<and> current (health c) > 0)
                           (characters cs)
      in if length alivePlayers = 0
         then (Some Enemies, w\<lparr>combatState := cs\<lparr>victor := Some Enemies, isActive := False\<rparr>\<rparr>)
         else if length aliveEnemies = 0
         then (Some Players, w\<lparr>combatState := cs\<lparr>victor := Some Players, isActive := False\<rparr>\<rparr>)
         else (None, w))"

section \<open>Pathfinding (combat/pathfinding)\<close>

datatype PathNode =
  PathNode (nodePosition: Position) (gCost: int) (hCost: int) (fCost: int)
           (parent: "PathNode option")

definition calculateDistance :: "Position \<Rightarrow> Position \<Rightarrow> int" where
  "calculateDistance a b = \<bar>pos_x a - pos_x b\<bar> + \<bar>pos_y a - pos_y b\<bar>"

definition directions :: "(int \<times> int) list" where
  "directions = [(0, - 1), (1, 0), (0, 1), (- 1, 0), (- 1, - 1), (1, - 1), (- 1, 1), (1, 1)]"

definition inBounds :: "Battlefield \<Rightarrow> Position \<Rightarrow> bool" where
  "inBounds bf p = (pos_x p \<ge> 0 \<and> pos_x p < width bf \<and> pos_y p \<ge> 0 \<and> pos_y p < height bf)"

definition getNeighbors :: "Position \<Rightarrow> Battlefield \<Rightarrow> Position list" where
  "getNeighbors p bf =
     filter (inBounds bf) (map (\<lambda>(dx, dy). Position (pos_x p + dx) (pos_y p + dy)) directions)"

definition isPositionBlocked :: "Position \<Rightarrow> CombatState \<Rightarrow> string option \<Rightarrow> bool" where
  "isPositionBlocked p cs excludeCharacter =
     (if list_ex (\<lambda>obs. pos_x obs = pos_x p \<and> pos_y obs = pos_y p) (obstacles (battlefield cs))
      then True
      else list_ex (\<lambda>c. Some (char_id c) \<noteq> excludeCharacter
                         \<and> pos_x (position c) = pos_x p \<and> pos_y (position c) = pos_y p
                         \<and> current (health c) > 0) (characters cs))"

fun reconstructPath :: "PathNode \<Rightarrow> Position list" where
  "reconstructPath (PathNode p g h f par) =
     (case par of None \<Rightarrow> [] | Some n \<Rightarrow> reconstructPath n) @ [p]"

text \<open>
  The nodes of the open set are objects that the loop updates in place; a node becomes the
  \<open>parent\<close> of another only after it has been taken out of the open set, and only nodes
  found in the open set are updated, so a parent is never changed after it is referred to
  and a node can hold its parent by value. The closed set holds the keys \<open>x,y\<close> of the
  cells, one key per cell, and is modelled as the list of those cells.
  \<open>visitNeighbor\<close> is the body of the loop over the neighbours of the current node.
\<close>

fun replaceNode :: "Position \<Rightarrow> (PathNode \<Rightarrow> PathNode) \<Rightarrow> PathNode list \<Rightarrow> PathNode list" where
  "replaceNode p f [] = []"
| "replaceNode p f (n # ns) =
     (if nodePosition n = p then f n # ns else n # replaceNode p f ns)"

definition visitNeighbor ::
  "CombatState \<Rightarrow> string option \<Rightarrow> Position \<Rightarrow> Position list \<Rightarrow> PathNode
     \<Rightarrow> PathNode list \<Rightarrow> Position \<Rightarrow> PathNode list" where
  "visitNeighbor cs excludeCharacter endp closedSet currentNode openSet neighborPos =
     (if neighborPos \<in> set closedSet then openSet
      else if isPositionBlocked neighborPos cs excludeCharacter \<and> neighborPos \<noteq> endp then openSet
      else
        let tentativeGCost = gCost currentNode + 1
        in case find (\<lambda>n. nodePosition n = neighborPos) openSet of
             Some existingNode \<Rightarrow>
               if tentativeGCost \<ge> gCost existingNode then openSet
               else replaceNode neighborPos
                      (\<lambda>n. PathNode (nodePosition n) tentativeGCost (hCost n)
                              (tentativeGCost + hCost n) (Some currentNode)) openSet
           | None \<Rightarrow>
               openSet @ [PathNode neighborPos tentativeGCost
                            (calculateDistance neighborPos endp)
                            (tentativeGCost + calculateDistance neighborPos endp)
                            (Some currentNode)])"

text \<open>
  The search loop. It is not structurally recursive, so it is a partial function into
  \<open>option\<close>: the outer \<open>None\<close> is a search that never returns, \<open>Some None\<close> is the
  result \<open>null\<close> and \<open>Some (Some path)\<close> a path. \<open>sort\<close> is stable, as \<open>sort_key\<close> is.
\<close>

partial_function (option) findPath_loop ::
  "CombatState \<Rightarrow> string option \<Rightarrow> Position \<Rightarrow> PathNode list \<Rightarrow> Position list
     \<Rightarrow> Position list option option" where
  "findPath_loop cs excludeCharacter endp openSet closedSet =
     (if openSet = [] then Some None
      else
        let sorted = sort_key fCost openSet;
            currentNode = hd sorted;
            rest = tl sorted;
            closedSet1 = nodePosition currentNode # closedSet
        in if nodePosition currentNode = endp then Some (Some (reconstructPath currentNode))
           else findPath_loop cs excludeCharacter endp
                  (foldl (visitNeighbor cs excludeCharacter endp closedSet1 currentNode) rest
                     (getNeighbors (nodePosition currentNode) (battlefield cs)))
                  closedSet1)"

definition findPath ::
  "Position \<Rightarrow> Position \<Rightarrow> CombatState \<Rightarrow> string option \<Rightarrow> Position list option option" where
  "findPath start endp cs excludeCharacter =
     findPath_loop cs excludeCharacter endp
       [PathNode start 0 (calculateDistance start endp) (0 + calculateDistance start endp) None]
       []"

section \<open>Fixtures\<close>

text \<open>
  Concrete characters, states and actions on which the theorems below are instantiated.
\<close>

definition hero :: Character where
  "hero =
     \<lparr>char_id = ''hero'', char_name = ''Hero'', level = 1,
      stats = \<lparr>strength = 16, dexterity = 12, constitution = 14, intelligence = 10,
               wisdom = 10, charisma = 10\<rparr>,
      health = \<lparr>current = 12, maximum = 12, temporary = 0\<rparr>,
      armorClass = 16, speed = 30,
      resources = \<lparr>spellSlots = [(1, \<lparr>current = 2, maximum = 2\<rparr>)]\<rparr>,
      position = Position 0 0, creatureType = Player, statusEffects = [],
      initiative = 0, hasUsedAction = False, hasUsedBonusAction = False,
      hasUsedReaction = False, movementUsed = 0\<rparr>"

definition goblin :: Character where
  "goblin =
     \<lparr>char_id = ''goblin'', char_name = ''Goblin'', level = 1,
      stats = \<lparr>strength = 3, dexterity = 14, constitution = 10, intelligence = 10,
               wisdom = 8, charisma = 8\<rparr>,
      health = \<lparr>current = 7, maximum = 7, temporary = 0\<rparr>,
      armorClass = 15, speed = 30,
      resources = \<lparr>spellSlots = []\<rparr>,
      position = Position 1 1, creatureType = Enemy, statusEffects = [],
      initiative = 0, hasUsedAction = False, hasUsedBonusAction = False,
      hasUsedReaction = False, movementUsed = 0\<rparr>"

definition board :: "int \<Rightarrow> int \<Rightarrow> Character list \<Rightarrow> CombatState" where
  "board wd ht cs =
     \<lparr>roundNumber = 1, turn = 0, characters = cs, initiativeOrder = map char_id cs,
      currentCharacterId = (case cs of [] \<Rightarrow> None | c # _ \<Rightarrow> Some (char_id c)),
      combatLog = [],
      battlefield = \<lparr>width = wd, height = ht, obstacles = [], effects = []\<rparr>,
      isActive = True, victor = None\<rparr>"

definition world :: "CombatState \<Rightarrow> int \<Rightarrow> World" where
  "world cs s =
     \<lparr>combatState = cs, logger = [], globalRNG = \<lparr>seed = s\<rparr>, dateNowCalls = 0,
      mathRandomCalls = 0\<rparr>"

definition env0 :: Env where
  "env0 = \<lparr>dateNow = (\<lambda>k. 1700000000000 + int k), mathRandom = (\<lambda>k. 1 / 2)\<rparr>"

definition act :: "ActionType \<Rightarrow> string \<Rightarrow> CombatAction" where
  "act ty who =
     \<lparr>action_id = ''a1'', action_type = ty, characterId = who, target = None, path = None,
      spellId = None, itemId = None, weaponId = None, damage = None, attackRoll = None,
      targetAC = None, description = []\<rparr>"

section \<open>Observations on the log\<close>

text \<open>
  What a test of the log compares: the body of a stored entry, without the generated id
  and timestamp, and the log after a sequence of additions.
\<close>

definition bodyOf :: "CombatLogEntry \<Rightarrow> EntryBody" where
  "bodyOf e = EntryBody.truncate e"

fun addEntries :: "Env \<Rightarrow> EntryBody list \<Rightarrow> World \<Rightarrow> World" where
  "addEntries env [] w = w"
| "addEntries env (e # es) w = addEntries env es (addEntry env e w)"

definition numberedEntry :: "nat \<Rightarrow> EntryBody" where
  "numberedEntry k =
     \<lparr>entry_type = RoundEntry, entry_characterId = [], characterName = [],
      message = ''Round '' @ showInt (int k) @ '' begins'', details = None\<rparr>"

section \<open>Scenarios\<close>

text \<open>
  A turn in which the character with id \<open>hero\<close> takes the Dash action and the turn is
  ended, and the casting of Magic Missile at the goblin.
\<close>

definition dashTurn :: "Env \<Rightarrow> World \<Rightarrow> World" where
  "dashTurn env w = endTurn env (snd (snd (processAction env (act Dash ''hero'') w)))"

definition castMagicMissile :: CombatAction where
  "castMagicMissile =
     (act Spell ''hero'')\<lparr>spellId := Some ''magic_missile'',
                           target := Some (AtCharacter ''goblin'')\<rparr>"

section \<open>Grid geometry\<close>

text \<open>
  The number of king moves between two cells, and the neighbour of a cell that lies one
  step towards a goal in each coordinate that still differs.
\<close>

definition chebyshevDistance :: "Position \<Rightarrow> Position \<Rightarrow> int" where
  "chebyshevDistance a b = max \<bar>pos_x a - pos_x b\<bar> \<bar>pos_y a - pos_y b\<bar>"

definition stepToward :: "Position \<Rightarrow> Position \<Rightarrow> Position" where
  "stepToward b p =
     Position (pos_x p + sgn (pos_x b - pos_x p)) (pos_y p + sgn (pos_y b - pos_y p))"

definition openBoard :: "CombatState \<Rightarrow> string option \<Rightarrow> bool" where
  \<comment> \<open>no obstacles, and no living character other than the excluded one\<close>
  "openBoard cs excludeCharacter =
     (obstacles (battlefield cs) = []
      \<and> list_all (\<lambda>c. Some (char_id c) = excludeCharacter \<or> current (health c) \<le> 0)
            (characters cs))"

section \<open>The straight track of the search\<close>

text \<open>
  On a board without obstacles the search never leaves one track: from the start it takes
  the neighbour one step towards the goal in every coordinate that still differs, then
  that cell's, and so on. \<open>nextNode\<close> is the node the loop creates for the next cell of
  the track. \<open>onTrack\<close> describes the open and closed sets at the head of the loop when
  the track has reached the node \<open>N\<close>: \<open>N\<close> is in the open set with the strictly
  smallest \<open>fCost\<close>, its cost plus the king-move distance left is the king-move distance
  from start to goal, no open node costs more, and every closed cell is farther from the
  goal. \<open>fringe\<close> describes the open set while the neighbours of \<open>N\<close> are visited.
\<close>

definition nextNode :: "Position \<Rightarrow> PathNode \<Rightarrow> PathNode" where
  "nextNode b N =
     (let s = stepToward b (nodePosition N)
      in PathNode s (gCost N + 1) (calculateDistance s b)
           (gCost N + 1 + calculateDistance s b) (Some N))"

definition onTrack ::
  "Battlefield \<Rightarrow> Position \<Rightarrow> Position \<Rightarrow> PathNode \<Rightarrow> PathNode list \<Rightarrow> Position list \<Rightarrow> bool" where
  "onTrack bf a b N openSet closedSet \<longleftrightarrow>
     N \<in> set openSet \<and> distinct (map nodePosition openSet) \<and> inBounds bf (nodePosition N)
     \<and> 0 \<le> gCost N
     \<and> gCost N + chebyshevDistance (nodePosition N) b = chebyshevDistance a b
     \<and> int (length (reconstructPath N)) = gCost N + 1
     \<and> hd (reconstructPath N) = a
     \<and> (\<forall>n \<in> set openSet.
           gCost n \<le> gCost N
           \<and> fCost n = gCost n + calculateDistance (nodePosition n) b
           \<and> (n \<noteq> N \<longrightarrow> fCost N < fCost n))
     \<and> (\<forall>q \<in> set closedSet. calculateDistance (nodePosition N) b < calculateDistance q b)"

definition fringe :: "Position \<Rightarrow> PathNode \<Rightarrow> PathNode list \<Rightarrow> bool" where
  "fringe b N acc \<longleftrightarrow>
     distinct (map nodePosition acc)
     \<and> (\<forall>n \<in> set acc.
           gCost n \<le> gCost N + 1
           \<and> fCost n = gCost n + calculateDistance (nodePosition n) b
           \<and> (nodePosition n = stepToward b (nodePosition N) \<longrightarrow> n = nextNode b N)
           \<and> (nodePosition n \<noteq> stepToward b (nodePosition N) \<longrightarrow> fCost (nextNode b N) < fCost n))"

declare findPath_loop.simps [code]

section \<open>Properties of the generator\<close>

lemma floor_scaled_quotient:
  "\<lfloor>(of_int a :: rat) / of_int b * of_int c\<rfloor> = a * c div b"
proof -
  have "(of_int a :: rat) / of_int b * of_int c = of_int (a * c) / of_int b"
    by simp
  then show ?thesis
    by (simp only: floor_divide_of_int_eq)
qed

text \<open>The integer a die roll returns, without the detour through the quotient.\<close>

lemma nextInt_integer:
  "nextInt lo hi g =
     (let s = js_rem (seed g * 16807) 2147483647
      in ((s - 1) * (hi - lo + 1) div 2147483646 + lo, g\<lparr>seed := s\<rparr>))"
  using floor_scaled_quotient [of "js_rem (seed g * 16807) 2147483647 - 1" 2147483646 "hi - lo + 1"]
  by (simp add: nextInt_def rng_next_def Let_def)

lemma rng_next_unit_interval:
  assumes "0 < seed g" and "seed g * 16807 mod 2147483647 \<noteq> 0"
  shows "0 \<le> fst (rng_next g) \<and> fst (rng_next g) < 1"
proof -
  let ?s = "js_rem (seed g * 16807) 2147483647"
  have eq: "?s = seed g * 16807 mod 2147483647"
    using assms(1) by (simp add: js_rem_def)
  have lo: "1 \<le> ?s"
    using assms(2) eq pos_mod_sign [of 2147483647 "seed g * 16807"] by linarith
  have hi: "?s - 1 < 2147483646"
    using eq pos_mod_bound [of 2147483647 "seed g * 16807"] by linarith
  have "(0::rat) \<le> of_int (?s - 1)"
    using lo by simp
  moreover have "(of_int (?s - 1) :: rat) < of_int 2147483646"
    using hi by (simp only: of_int_less_iff)
  ultimately show ?thesis
    by (simp add: rng_next_def Let_def)
qed

lemma unseeded_depends_on_environment:
  "fst (rng_next (newSeededRNG None 0)) \<noteq> fst (rng_next (newSeededRNG None (1 / 2147483647)))"
  by (simp add: rng_next_def newSeededRNG_def js_rem_def Let_def)

text \<open>
  C1. Two generators constructed with the same seed, an integer or a string, return the
  same results over the same sequence of calls to \<open>next()\<close>, \<open>rollDie\<close> and
  \<open>shuffle\<close>, of any length, whatever the ambient source of randomness would have
  supplied to either constructor. The same holds for two generators reseeded by
  \<open>setSeed\<close> with the same seed, whatever their states were.
\<close>

theorem same_seed_same_sequence:
  "performAll calls (newSeededRNG (Some s) r1) = performAll calls (newSeededRNG (Some s) r2)
   \<and> performAll calls (setSeed s g1) = performAll calls (setSeed s g2)"
proof -
  have "setSeed s g1 = setSeed s g2"
    by (cases g1; cases g2) (simp add: setSeed_def)
  then show ?thesis
    by (simp add: newSeededRNG_def)
qed

text \<open>
  C8. The claim is that \<open>next()\<close> returns a number in \<open>[0, 1)\<close> from every state a
  seed can install, zero included. The state 0 is a fixed point of the update and the
  value returned from it is \<open>-1 / 2147483646\<close>, below the interval; a twenty-sided die
  rolled from it shows 0. The integer seed 0 and the empty string both install it.
\<close>

theorem next_from_seed_zero_is_negative:
  "fst (rng_next (newSeededRNG (Some (NumSeed 0)) r)) = - 1 / 2147483646
   \<and> fst (rng_next (newSeededRNG (Some (StrSeed [])) r)) < 0
   \<and> fst (rollDie 20 (newSeededRNG (Some (NumSeed 0)) r)) = 0"
  by (simp add: rng_next_def newSeededRNG_def seedOf_def hashString_def js_rem_def
      rollDie_def nextInt_integer Let_def)

section \<open>Attack resolution\<close>

lemma parseDice_1d4: "parseDiceString ''1d4'' g = rollDice 1 4 0 g"
  by (simp add: parseDiceString_def matchDiceAt_def isDigit_def parseInt_def parseDigits_def
      digitValue_def)

lemma rollDie_at:
  "rollDie sides \<lparr>seed = s\<rparr> =
     (let s' = js_rem (s * 16807) 2147483647
      in ((s' - 1) * sides div 2147483646 + 1, \<lparr>seed = s'\<rparr>))"
  by (simp add: rollDie_def nextInt_integer Let_def)

lemma d20_examples:
  "rollDie 20 \<lparr>seed = 54000\<rparr> = (9, \<lparr>seed = 907578000\<rparr>)"
  "rollDie 20 \<lparr>seed = 60000\<rparr> = (10, \<lparr>seed = 1008420000\<rparr>)"
  "rollDie 20 \<lparr>seed = 66000\<rparr> = (11, \<lparr>seed = 1109262000\<rparr>)"
  "rollDie 20 \<lparr>seed = 125000\<rparr> = (20, \<lparr>seed = 2100875000\<rparr>)"
  by (simp_all add: rollDie_at js_rem_def)

lemmas attack_eval =
  hero_def goblin_def lookupWeapon_def includesFinesse_def isRanged_def rollAttack_def
  attackBonusOf_def getModifier_def getProficiencyBonus_def damageDiceOf_def
  damageModifierOf_def parseDice_1d4 rollDice_def rollDie_at js_rem_def Let_def

text \<open>
  An attack with a weapon of the table never reaches the roll: the test for the finesse
  property calls \<open>includes\<close> on an object that has no such method.
\<close>

lemma table_weapon_raises:
  "rollAttack attacker tgt (Some ''longsword'') g = Inl TypeError"
  by (simp add: rollAttack_def lookupWeapon_def getWeaponById_def WEAPONS_def mkWeapon_def
      includesFinesse_def)

text \<open>
  C3, as the code has it. The proficiency bonus at level 1 is \<open>ceil(1 / 4) + 1 = 2\<close>, so
  an attacker with Strength 16 adds 5 to the d20. Against armor class 15, when the finesse
  test is false and the weapon is not ranged (no weapon, or a melee weapon without the
  finesse property), the attack roll is the d20 plus 5 and the attack hits exactly when the
  d20 shows 10 or more: 11 (total 16) and 10 (total 15) hit, 9 (total 14) misses.
\<close>

theorem attack_roll_strength_16_level_1:
  assumes "strength (stats attacker) = 16" and "level attacker = 1" and "armorClass tgt = 15"
    and "includesFinesse (lookupWeapon wid) = Inr False" and "\<not> isRanged (lookupWeapon wid)"
    and "fst (rollDie 20 g) = d"
  shows "\<exists>res g'. rollAttack attacker tgt wid g = Inr (res, g')
           \<and> result_attackRoll res = d + 5 \<and> hit res = (10 \<le> d)"
  using assms
  by (auto simp add: rollAttack_def attackBonusOf_def getModifier_def Let_def
      split: prod.splits)

theorem attack_roll_strength_16_level_1_witness:
  "fst (rollDie 20 \<lparr>seed = 60000\<rparr>) = 10
   \<and> (\<exists>res g'. rollAttack hero goblin None \<lparr>seed = 60000\<rparr> = Inr (res, g')
         \<and> result_attackRoll res = 15 \<and> hit res)
   \<and> fst (rollDie 20 \<lparr>seed = 54000\<rparr>) = 9
   \<and> (\<exists>res g'. rollAttack hero goblin None \<lparr>seed = 54000\<rparr> = Inr (res, g')
         \<and> result_attackRoll res = 14 \<and> \<not> hit res)"
  using attack_roll_strength_16_level_1 [of hero goblin None "\<lparr>seed = 60000\<rparr>" 10]
    attack_roll_strength_16_level_1 [of hero goblin None "\<lparr>seed = 54000\<rparr>" 9]
  by (simp add: d20_examples hero_def goblin_def lookupWeapon_def includesFinesse_def
      isRanged_def)

text \<open>
  C3, as the claim states it, fails: the attacker of the claim (Strength 16, level 1)
  rolls a 10 against armor class 15, the total is 15 and the attack hits. The attack is
  made without a weapon id, for which \<open>rollAttack\<close> uses Strength as it does for a melee
  weapon without the finesse property.
\<close>

theorem roll_of_10_hits_armor_class_15:
  "strength (stats hero) = 16 \<and> getModifier 16 = 3 \<and> level hero = 1
   \<and> getProficiencyBonus 1 = 2 \<and> armorClass goblin = 15
   \<and> fst (rollDie 20 \<lparr>seed = 60000\<rparr>) = 10
   \<and> map_sum id fst (rollAttack hero goblin None \<lparr>seed = 60000\<rparr>)
       = Inr \<lparr>hit = True, result_attackRoll = 15, result_damage = 5\<rparr>"
  by (simp add: d20_examples attack_eval)

text \<open>
  C4, as the code has it. When an attack hits on a natural 20, the damage is the first
  weapon-dice roll plus one ability modifier (Dexterity for a ranged weapon, Strength
  otherwise), raised to 1 if it is less, plus a second weapon-dice roll drawn after the
  first.
\<close>

theorem critical_hit_damage:
  assumes "rollAttack attacker tgt wid g = Inr (res, g')"
    and "rollDie 20 g = (20, g1)"
    and "hit res"
    and "parseDiceString (damageDiceOf (lookupWeapon wid)) g1 = (roll1, g2)"
    and "parseDiceString (damageDiceOf (lookupWeapon wid)) g2 = (roll2, g3)"
  shows "result_damage res = max 1 (roll1 + damageModifierOf attacker (lookupWeapon wid)) + roll2"
  using assms
  by (auto simp add: rollAttack_def Let_def split: sum.splits if_splits)

theorem critical_hit_damage_witness:
  "rollAttack hero goblin None \<lparr>seed = 125000\<rparr>
     = Inr (\<lparr>hit = True, result_attackRoll = 25, result_damage = 7\<rparr>, \<lparr>seed = 1428665850\<rparr>)
   \<and> rollDie 20 \<lparr>seed = 125000\<rparr> = (20, \<lparr>seed = 2100875000\<rparr>)
   \<and> parseDiceString ''1d4'' \<lparr>seed = 2100875000\<rparr> = (1, \<lparr>seed = 480001026\<rparr>)
   \<and> parseDiceString ''1d4'' \<lparr>seed = 480001026\<rparr> = (3, \<lparr>seed = 1428665850\<rparr>)
   \<and> result_damage \<lparr>hit = True, result_attackRoll = 25, result_damage = 7\<rparr>
       = max 1 (1 + getModifier 16) + 3"
  using critical_hit_damage [of hero goblin None "\<lparr>seed = 125000\<rparr>"
      "\<lparr>hit = True, result_attackRoll = 25, result_damage = 7\<rparr>" "\<lparr>seed = 1428665850\<rparr>"
      "\<lparr>seed = 2100875000\<rparr>" 1 "\<lparr>seed = 480001026\<rparr>" 3 "\<lparr>seed = 1428665850\<rparr>"]
  by (simp add: d20_examples attack_eval)

text \<open>
  C4, as the claim states it, fails when the first roll plus the modifier is below 1. An
  attacker with Strength 3 (modifier \<open>-4\<close>) rolls a natural 20 against armor class 16 and
  hits; the weapon dice show 1 and then 3. The damage is \<open>max(1, 1 - 4) + 3 = 4\<close>, not
  the sum \<open>1 + 3 - 4 = 0\<close> of two rolls and one modifier.
\<close>

theorem critical_damage_floor_counterexample:
  "rollDie 20 \<lparr>seed = 125000\<rparr> = (20, \<lparr>seed = 2100875000\<rparr>)
   \<and> parseDiceString ''1d4'' \<lparr>seed = 2100875000\<rparr> = (1, \<lparr>seed = 480001026\<rparr>)
   \<and> parseDiceString ''1d4'' \<lparr>seed = 480001026\<rparr> = (3, \<lparr>seed = 1428665850\<rparr>)
   \<and> getModifier (strength (stats goblin)) = - 4
   \<and> rollAttack goblin hero None \<lparr>seed = 125000\<rparr>
       = Inr (\<lparr>hit = True, result_attackRoll = 18, result_damage = 4\<rparr>, \<lparr>seed = 1428665850\<rparr>)
   \<and> (4 :: int) \<noteq> 1 + 3 + (- 4)"
  by (simp add: d20_examples attack_eval)

section \<open>The combat log\<close>

lemma bodyOf_extend: "bodyOf (EntryBody.extend e (CombatLogEntry.fields i t)) = e"
  by (simp add: bodyOf_def EntryBody.defs CombatLogEntry.defs)

lemma addEntry_bodies:
  "map bodyOf (logger (addEntry env e w)) =
     (if length (logger w) + 1 > 100 then slice_last 50 (map bodyOf (logger w) @ [e])
      else map bodyOf (logger w) @ [e])"
  by (simp add: addEntry_def Let_def split_beta bodyOf_extend slice_last_def drop_map)

lemma addEntries_snoc: "addEntries env (es @ [e]) w = addEntry env e (addEntries env es w)"
  by (induction es arbitrary: w) simp_all

lemma addEntries_below_limit:
  "length (logger w) + length es \<le> 100 \<Longrightarrow>
     map bodyOf (logger (addEntries env es w)) = map bodyOf (logger w) @ es"
proof (induction es rule: rev_induct)
  case Nil
  then show ?case by simp
next
  case (snoc e es)
  then have "length (map bodyOf (logger (addEntries env es w))) < 100"
    by simp
  then have "length (logger (addEntries env es w)) < 100"
    by simp
  with snoc show ?case
    by (simp add: addEntries_snoc addEntry_bodies)
qed

text \<open>
  C9. Starting from an empty log, after 101 additions the log holds exactly 50 entries,
  the last 50 of those added, in the order they were added. And whenever an addition
  brings the log above 100 entries, what is kept is the last 50 of the log with the new
  entry at its end.
\<close>

theorem log_retention:
  "(logger w = [] \<and> length es = 101 \<longrightarrow>
      map bodyOf (logger (addEntries env es w)) = drop 51 es
      \<and> length (logger (addEntries env es w)) = 50)
   \<and> (length (logger w) + 1 > 100 \<longrightarrow>
      map bodyOf (logger (addEntry env e w)) = slice_last 50 (map bodyOf (logger w) @ [e]))"
proof (intro conjI impI)
  assume a: "logger w = [] \<and> length es = 101"
  then obtain es' e' where es: "es = es' @ [e']" and len: "length es' = 100"
    by (cases es rule: rev_cases) auto
  have pre: "map bodyOf (logger (addEntries env es' w)) = es'"
    using addEntries_below_limit [of w es' env] a len by simp
  then have "length (logger (addEntries env es' w)) = 100"
    using len by (metis length_map)
  then have "map bodyOf (logger (addEntries env es w)) = slice_last 50 (es' @ [e'])"
    using pre by (simp add: es addEntries_snoc addEntry_bodies)
  then show "map bodyOf (logger (addEntries env es w)) = drop 51 es"
    using len by (simp add: es slice_last_def)
  then have "length (map bodyOf (logger (addEntries env es w))) = 50"
    using a by simp
  then show "length (logger (addEntries env es w)) = 50"
    by simp
next
  assume "length (logger w) + 1 > 100"
  then show "map bodyOf (logger (addEntry env e w)) = slice_last 50 (map bodyOf (logger w) @ [e])"
    by (simp add: addEntry_bodies)
qed

theorem log_retention_witness:
  "logger (world (board 3 3 []) 7) = []
   \<and> length (map numberedEntry [0 ..< 101]) = 101
   \<and> map bodyOf (logger (addEntries env0 (map numberedEntry [0 ..< 101]) (world (board 3 3 []) 7)))
       = drop 51 (map numberedEntry [0 ..< 101])
   \<and> length (logger (addEntries env0 (map numberedEntry [0 ..< 101]) (world (board 3 3 []) 7))) = 50
   \<and> length (logger (addEntries env0 (map numberedEntry [0 ..< 100]) (world (board 3 3 []) 7))) + 1 > 100
   \<and> map bodyOf (logger (addEntry env0 (numberedEntry 100)
        (addEntries env0 (map numberedEntry [0 ..< 100]) (world (board 3 3 []) 7))))
       = slice_last 50 (map numberedEntry [0 ..< 100] @ [numberedEntry 100])"
proof -
  let ?w = "world (board 3 3 []) 7"
  let ?w100 = "addEntries env0 (map numberedEntry [0 ..< 100]) ?w"
  have empty: "logger ?w = []"
    by (simp add: world_def)
  have bodies: "map bodyOf (logger ?w100) = map numberedEntry [0 ..< 100]"
    using addEntries_below_limit [of ?w "map numberedEntry [0 ..< 100]" env0] empty by simp
  then have "length (map bodyOf (logger ?w100)) = 100"
    by simp
  then have full: "length (logger ?w100) = 100"
    by simp
  show ?thesis
    using log_retention [where w = ?w and es = "map numberedEntry [0 ..< 101]" and env = env0]
      log_retention [where w = ?w100 and env = env0 and e = "numberedEntry 100"]
    by (simp add: empty full bodies)
qed

section \<open>The combat engine\<close>

text \<open>Logging changes the logger and the generator, never the combat state.\<close>

lemma combatState_addEntry [simp]: "combatState (addEntry env e w) = combatState w"
  by (simp add: addEntry_def Let_def split_beta)

lemma combatState_logRoundStart [simp]: "combatState (logRoundStart env r w) = combatState w"
  by (simp add: logRoundStart_def)

lemma combatState_logTurnStart [simp]: "combatState (logTurnStart env c w) = combatState w"
  by (simp add: logTurnStart_def)

lemma combatState_logMovement [simp]: "combatState (logMovement env c p q w) = combatState w"
  by (simp add: logMovement_def)

lemma combatState_logAttack [simp]: "combatState (logAttack env c t a h d w) = combatState w"
  by (simp add: logAttack_def Let_def)

lemma combatState_logSpellCast [simp]: "combatState (logSpellCast env c s t w) = combatState w"
  by (simp add: logSpellCast_def split: option.splits)

lemma combatState_logDamage [simp]: "combatState (logDamage env c d t w) = combatState w"
  by (simp add: logDamage_def)

lemma combatState_logDeath [simp]: "combatState (logDeath env c w) = combatState w"
  by (simp add: logDeath_def)

lemma characters_updateCharacter [simp]:
  "characters (combatState (updateCharacter k f w)) = modifyCharacter k f (characters (combatState w))"
  by (simp add: updateCharacter_def)

subsection \<open>Initialization\<close>

lemma initializeCombat_state:
  "combatState (snd (initializeCombat env w)) =
     (let sorted = sort_key (\<lambda>c. - initiative c)
                     (fst (rollInitiatives (characters (combatState w)) (globalRNG w)))
      in (combatState w)\<lparr>characters := sorted, initiativeOrder := map char_id sorted,
            currentCharacterId := (case map char_id sorted of [] \<Rightarrow> None | k # _ \<Rightarrow> Some k),
            combatLog := []\<rparr>)"
  by (simp add: initializeCombat_def Let_def split_beta split: option.splits)

lemma rollInitiatives_ids:
  "map char_id (fst (rollInitiatives cs g)) = map char_id cs"
  by (induction cs arbitrary: g) (simp_all add: Let_def split_beta)

lemma sorted_descending:
  "sorted_wrt (\<lambda>a b. initiative a \<ge> initiative b) (sort_key (\<lambda>c. - initiative c) cs)"
proof -
  have "sorted (map (\<lambda>c. - initiative c) (sort_key (\<lambda>c. - initiative c) cs))"
    by (rule sorted_sort_key)
  then show ?thesis
    by (simp add: sorted_wrt_map)
qed

lemma init_example:
  "characters (combatState (snd (initializeCombat env0 (world (board 3 3 [hero, goblin]) 1000))))
     = [goblin\<lparr>initiative := 13\<rparr>, hero\<lparr>initiative := 2\<rparr>]"
  by (simp add: initializeCombat_state Let_def world_def board_def hero_def goblin_def
      rollDie_at js_rem_def split_beta)

text \<open>
  C10. Whatever \<open>initializeCombat\<close> is given, and also when it ends in the type error
  of an empty roster, the state it leaves has the \<open>characters\<close> array itself in
  descending order of initiative, holding the characters it held before;
  \<open>initiativeOrder\<close> lists their ids index by index, and \<open>combatLog\<close> is empty.
\<close>

theorem initializeCombat_reorders_in_place:
  fixes env w
  defines "cs' \<equiv> combatState (snd (initializeCombat env w))"
  shows "length (initiativeOrder cs') = length (characters cs')
    \<and> (\<forall>i < length (characters cs'). char_id (characters cs' ! i) = initiativeOrder cs' ! i)
    \<and> combatLog cs' = []
    \<and> sorted_wrt (\<lambda>a b. initiative a \<ge> initiative b) (characters cs')
    \<and> mset (map char_id (characters cs')) = mset (map char_id (characters (combatState w)))"
proof -
  let ?rolled = "fst (rollInitiatives (characters (combatState w)) (globalRNG w))"
  let ?sorted = "sort_key (\<lambda>c. - initiative c) ?rolled"
  have chars: "characters cs' = ?sorted" and order: "initiativeOrder cs' = map char_id ?sorted"
    and log: "combatLog cs' = []"
    by (simp_all add: cs'_def initializeCombat_state Let_def)
  have "mset (map char_id ?sorted) = mset (map char_id ?rolled)"
    by simp
  then have perm: "mset (map char_id (characters cs')) = mset (map char_id (characters (combatState w)))"
    by (simp only: chars rollInitiatives_ids)
  show ?thesis
    using perm log sorted_descending [of ?rolled]
    by (simp add: chars order)
qed

theorem initializeCombat_reorders_in_place_witness:
  "map char_id (characters (combatState (world (board 3 3 [hero, goblin]) 1000))) = [''hero'', ''goblin'']
   \<and> map char_id (characters (combatState (snd (initializeCombat env0 (world (board 3 3 [hero, goblin]) 1000)))))
       = [''goblin'', ''hero'']
   \<and> initiativeOrder (combatState (snd (initializeCombat env0 (world (board 3 3 [hero, goblin]) 1000))))
       = [''goblin'', ''hero'']
   \<and> combatLog (combatState (snd (initializeCombat env0 (world (board 3 3 [hero, goblin]) 1000)))) = []"
proof -
  let ?w = "world (board 3 3 [hero, goblin]) 1000"
  let ?cs' = "combatState (snd (initializeCombat env0 ?w))"
  have before: "map char_id (characters (combatState ?w)) = [''hero'', ''goblin'']"
    by (simp add: world_def board_def hero_def goblin_def)
  have chars: "map char_id (characters ?cs') = [''goblin'', ''hero'']"
    unfolding init_example by (simp add: hero_def goblin_def)
  then have len: "length (characters ?cs') = 2"
    unfolding init_example by simp
  note t = initializeCombat_reorders_in_place [of env0 ?w]
  from t have l2: "length (initiativeOrder ?cs') = 2" and log: "combatLog ?cs' = []"
    and ix: "\<forall>i < 2. char_id (characters ?cs' ! i) = initiativeOrder ?cs' ! i"
    unfolding len by blast+
  have "initiativeOrder ?cs' = map char_id (characters ?cs')"
    using l2 len ix by (intro nth_equalityI) simp_all
  then show ?thesis
    using before chars log by (simp only: simp_thms)
qed

subsection \<open>Rejected actions\<close>

lemma processMovement_False:
  "processMovement env c a w = (False, w') \<Longrightarrow> w' = w"
  by (auto simp add: processMovement_def Let_def split: option.splits Target.splits)

lemma processSpell_False:
  "processSpell env c a w = (False, w') \<Longrightarrow> w' = w"
  by (auto simp add: processSpell_def Let_def split: option.splits Target.splits if_splits)

lemma processAttack_False:
  "processAttack env c a w = (Inr False, a', w') \<Longrightarrow> w' = w \<and> a' = a"
  by (auto simp add: processAttack_def Let_def
      split: option.splits Target.splits if_splits sum.splits prod.splits)

text \<open>
  C6. When \<open>processAction\<close> returns false, the world it leaves is the world it was
  given: every character, the battlefield, the scheduler fields and the combat log of the
  state, the log of the logger, the generator and the counts of calls to the clock and to
  \<open>Math.random\<close>. The action object is not annotated either.
\<close>

theorem failed_action_changes_nothing:
  assumes "processAction env action w = (Inr False, action', w')"
  shows "w' = w \<and> action' = action"
  using assms
  by (auto simp add: processAction_def processDash_def processDodge_def
      dest: processMovement_False processSpell_False processAttack_False
      split: option.splits ActionType.splits prod.splits)

lemma reject_examples:
  "fst (processAction env0 (act Dash ''nobody'') (world (board 3 3 [hero, goblin]) 7)) = Inr False"
  "fst (processAction env0 (act Attack ''hero'') (world (board 3 3 [hero, goblin]) 7)) = Inr False"
  by (simp_all add: processAction_def processAttack_def getCharacterById_def world_def
        board_def hero_def goblin_def act_def)

theorem failed_action_changes_nothing_witness:
  "processAction env0 (act Dash ''nobody'') (world (board 3 3 [hero, goblin]) 7)
     = (Inr False, act Dash ''nobody'', world (board 3 3 [hero, goblin]) 7)
   \<and> processAction env0 (act Attack ''hero'') (world (board 3 3 [hero, goblin]) 7)
     = (Inr False, act Attack ''hero'', world (board 3 3 [hero, goblin]) 7)"
proof -
  let ?w = "world (board 3 3 [hero, goblin]) 7"
  obtain a1 w1 where e1: "processAction env0 (act Dash ''nobody'') ?w = (Inr False, a1, w1)"
    using reject_examples(1) by (metis prod.collapse)
  obtain a2 w2 where e2: "processAction env0 (act Attack ''hero'') ?w = (Inr False, a2, w2)"
    using reject_examples(2) by (metis prod.collapse)
  show ?thesis
    using failed_action_changes_nothing [OF e1] failed_action_changes_nothing [OF e2] e1 e2
    by simp
qed

subsection \<open>Dash\<close>

lemma speed_modifyCharacter:
  "(\<And>c. speed (f c) = speed c) \<Longrightarrow> map speed (modifyCharacter k f cs) = map speed cs"
  by (induction cs) simp_all

lemma combatState_turn_logged [simp]:
  "combatState (case x of None \<Rightarrow> w | Some c \<Rightarrow> logTurnStart env c w) = combatState w"
  by (cases x) simp_all

lemma endTurn_keeps_speed:
  "map speed (characters (combatState (endTurn env w))) = map speed (characters (combatState w))"
proof (cases "getCurrentCharacter (combatState w)")
  case None
  then show ?thesis
    by (simp add: endTurn_def Let_def)
next
  case (Some c)
  then show ?thesis
    by (simp add: endTurn_def Let_def speed_modifyCharacter)
qed

lemma schedule_updateCharacter [simp]:
  "initiativeOrder (combatState (updateCharacter k f w)) = initiativeOrder (combatState w)"
  "currentCharacterId (combatState (updateCharacter k f w)) = currentCharacterId (combatState w)"
  by (simp_all add: updateCharacter_def)

lemma endTurn_next_character:
  "currentCharacterId (combatState (endTurn env w)) =
     (let order = initiativeOrder (combatState w);
          currentIndex = (case currentCharacterId (combatState w) of
                            None \<Rightarrow> - 1 | Some k \<Rightarrow> indexOf order k)
      in if order = [] then None
         else Some (order ! nat (js_rem (currentIndex + 1) (int (length order)))))"
proof (cases "getCurrentCharacter (combatState w)")
  case None
  then show ?thesis
    by (simp add: endTurn_def Let_def)
next
  case (Some c)
  then obtain k where "currentCharacterId (combatState w) = Some k"
    by (auto simp add: getCurrentCharacter_def split: option.splits)
  with Some show ?thesis
    by (simp add: endTurn_def Let_def)
qed

lemma endTurn_order [simp]:
  "initiativeOrder (combatState (endTurn env w)) = initiativeOrder (combatState w)"
proof (cases "getCurrentCharacter (combatState w)")
  case None
  then show ?thesis
    by (simp add: endTurn_def Let_def)
next
  case (Some c)
  then show ?thesis
    by (simp add: endTurn_def Let_def)
qed

lemma endTurn_characters:
  "characters (combatState (endTurn env w)) =
     (case getCurrentCharacter (combatState w) of
        None \<Rightarrow> characters (combatState w)
      | Some c \<Rightarrow>
          modifyCharacter (char_id c)
            (\<lambda>c. c\<lparr>hasUsedAction := False, hasUsedBonusAction := False,
                    hasUsedReaction := False, movementUsed := 0\<rparr>)
            (characters (combatState w)))"
proof (cases "getCurrentCharacter (combatState w)")
  case None
  then show ?thesis
    by (simp add: endTurn_def Let_def)
next
  case (Some c)
  then show ?thesis
    by (simp add: endTurn_def Let_def)
qed

lemma dash_state:
  assumes "getCharacterById (combatState w) (characterId a) = Some c" and "action_type a = Dash"
  shows "combatState (snd (snd (processAction env a w))) =
           (combatState w)\<lparr>characters :=
              modifyCharacter (char_id c) (\<lambda>c. c\<lparr>hasUsedAction := True, speed := speed c * 2\<rparr>)
                (characters (combatState w))\<rparr>"
  using assms by (simp add: processAction_def processDash_def updateCharacter_def)

text \<open>
  A turn in which the only combatant dashes: when the turn has ended it is that
  combatant's turn again, the per-turn flags are reset and the speed is twice what it was.
\<close>

lemma dashTurn_alone:
  assumes "characters (combatState w) = [c]" and "char_id c = ''hero''"
    and "initiativeOrder (combatState w) = [''hero'']"
    and "currentCharacterId (combatState w) = Some ''hero''"
  shows "characters (combatState (dashTurn env w)) =
           [c\<lparr>hasUsedAction := False, hasUsedBonusAction := False, hasUsedReaction := False,
              movementUsed := 0, speed := speed c * 2\<rparr>]"
    and "initiativeOrder (combatState (dashTurn env w)) = [''hero'']"
    and "currentCharacterId (combatState (dashTurn env w)) = Some ''hero''"
proof -
  let ?w1 = "snd (snd (processAction env (act Dash ''hero'') w))"
  have found: "getCharacterById (combatState w) (characterId (act Dash ''hero'')) = Some c"
    using assms by (simp add: getCharacterById_def act_def)
  have cs1: "combatState ?w1 =
      (combatState w)\<lparr>characters := [c\<lparr>hasUsedAction := True, speed := speed c * 2\<rparr>]\<rparr>"
    using dash_state [OF found, of env] assms by (simp add: act_def)
  have cur1: "getCurrentCharacter (combatState ?w1) = Some (c\<lparr>hasUsedAction := True, speed := speed c * 2\<rparr>)"
    using assms by (simp add: cs1 getCurrentCharacter_def getCharacterById_def)
  show "characters (combatState (dashTurn env w)) =
           [c\<lparr>hasUsedAction := False, hasUsedBonusAction := False, hasUsedReaction := False,
              movementUsed := 0, speed := speed c * 2\<rparr>]"
    using assms by (simp add: dashTurn_def endTurn_characters cur1) (simp add: cs1)
  show "initiativeOrder (combatState (dashTurn env w)) = [''hero'']"
    using assms by (simp add: dashTurn_def cs1)
  show "currentCharacterId (combatState (dashTurn env w)) = Some ''hero''"
    using assms by (simp add: dashTurn_def endTurn_next_character cs1 js_rem_def)
qed

text \<open>
  C5. The claim is that a character starts each of its turns with the speed it had before
  Dash was ever applied. \<open>processDash\<close> doubles the stored speed ("for the turn", as
  its comment says) and \<open>endTurn\<close> resets the per-turn flags but not the speed. A lone
  character of speed 30 that dashes starts its next turn with speed 60, and after dashing
  again the turn after with speed 120.
\<close>

theorem dash_is_not_reverted:
  "speed hero = 30
   \<and> getCurrentCharacter (combatState (world (board 3 3 [hero]) 7)) = Some hero
   \<and> getCurrentCharacter (combatState (dashTurn env0 (world (board 3 3 [hero]) 7)))
       = Some (hero\<lparr>speed := 60\<rparr>)
   \<and> getCurrentCharacter (combatState (dashTurn env0 (dashTurn env0 (world (board 3 3 [hero]) 7))))
       = Some (hero\<lparr>speed := 120\<rparr>)"
proof -
  let ?w = "world (board 3 3 [hero]) 7"
  have w0: "characters (combatState ?w) = [hero]" "char_id hero = ''hero''"
    "initiativeOrder (combatState ?w) = [''hero'']"
    "currentCharacterId (combatState ?w) = Some ''hero''"
    by (simp_all add: world_def board_def hero_def)
  note t1 = dashTurn_alone [OF w0, of env0]
  have id1: "char_id (hero\<lparr>hasUsedAction := False, hasUsedBonusAction := False,
      hasUsedReaction := False, movementUsed := 0, speed := speed hero * 2\<rparr>) = ''hero''"
    by (simp add: hero_def)
  note t2 = dashTurn_alone [OF t1(1) id1 t1(2) t1(3), of env0]
  have "getCurrentCharacter (combatState ?w) = Some hero"
    using w0 by (simp add: getCurrentCharacter_def getCharacterById_def)
  moreover have "getCurrentCharacter (combatState (dashTurn env0 ?w)) = Some (hero\<lparr>speed := 60\<rparr>)"
    using t1 by (simp add: getCurrentCharacter_def getCharacterById_def) (simp add: hero_def)
  moreover have "getCurrentCharacter (combatState (dashTurn env0 (dashTurn env0 ?w))) = Some (hero\<lparr>speed := 120\<rparr>)"
    using t2 by (simp add: getCurrentCharacter_def getCharacterById_def) (simp add: hero_def)
  moreover have "speed hero = 30"
    by (simp add: hero_def)
  ultimately show ?thesis
    by (simp only: simp_thms)
qed

subsection \<open>Spell slots\<close>

lemma resources_modifyCharacter:
  "(\<And>c. resources (f c) = resources c) \<Longrightarrow>
     map resources (modifyCharacter k f cs) = map resources cs"
  by (induction cs) simp_all

lemma combatState_spellDamage [simp]:
  "combatState (spellDamage env t d ty w) = combatState (updateCharacter (char_id t) (applyDamage d) w)"
  by (simp add: spellDamage_def Let_def)

lemma resources_applyDamage [simp]: "resources (applyDamage d c) = resources c"
  by (simp add: applyDamage_def)

lemma processMovement_resources:
  "map resources (characters (combatState (snd (processMovement env c a w))))
     = map resources (characters (combatState w))"
  by (simp add: processMovement_def Let_def resources_modifyCharacter
      split: option.split Target.split)

lemma processSpell_resources:
  "map resources (characters (combatState (snd (processSpell env c a w))))
     = map resources (characters (combatState w))"
  by (simp add: processSpell_def Let_def resources_modifyCharacter updateCharacter_def
      split: option.split Target.split)

lemma processAttack_resources:
  "map resources (characters (combatState (snd (snd (processAttack env c a w)))))
     = map resources (characters (combatState w))"
  by (simp add: processAttack_def Let_def resources_modifyCharacter
      split: option.split Target.split sum.split prod.split)

lemma processAction_resources:
  "map resources (characters (combatState (snd (snd (processAction env a w)))))
     = map resources (characters (combatState w))"
  by (simp add: processAction_def processDash_def processDodge_def split_beta
      processMovement_resources processSpell_resources processAttack_resources
      resources_modifyCharacter
      split: option.split ActionType.split)

text \<open>
  C2. The claim is that a spell of level above 0, cast by a character with a slot of that
  level left, takes one slot. \<open>processSpell\<close> never writes to \<open>resources\<close>, and no
  other action does. Magic Missile is a spell of level 1; the hero has two slots of level
  1, casts it at the goblin through \<open>processAction\<close>, which returns true, and still has
  two slots.
\<close>

theorem magic_missile_keeps_slot:
  "map_option spell_level (map_of SPELLS ''magicMissile'') = Some 1
   \<and> map (spellSlots \<circ> resources) (characters (combatState (world (board 3 3 [hero, goblin]) 7)))
       = [[(1, \<lparr>current = 2, maximum = 2\<rparr>)], []]
   \<and> fst (processAction env0 castMagicMissile (world (board 3 3 [hero, goblin]) 7)) = Inr True
   \<and> map (spellSlots \<circ> resources)
        (characters (combatState (snd (snd (processAction env0 castMagicMissile
           (world (board 3 3 [hero, goblin]) 7))))))
       = [[(1, \<lparr>current = 2, maximum = 2\<rparr>)], []]"
proof -
  let ?w = "world (board 3 3 [hero, goblin]) 7"
  have lvl: "map_option spell_level (map_of SPELLS ''magicMissile'') = Some 1"
    by (simp add: SPELLS_def mkSpell_def)
  have before: "map resources (characters (combatState ?w))
      = [\<lparr>spellSlots = [(1, \<lparr>current = 2, maximum = 2\<rparr>)]\<rparr>, \<lparr>spellSlots = []\<rparr>]"
    by (simp add: world_def board_def hero_def goblin_def)
  have ok: "fst (processAction env0 castMagicMissile ?w) = Inr True"
    by (simp add: processAction_def processSpell_def castMagicMissile_def act_def
        getCharacterById_def world_def board_def hero_def goblin_def Let_def updateCharacter_def)
  have "map (spellSlots \<circ> resources) (characters (combatState (snd (snd (processAction env0 castMagicMissile ?w)))))
      = map spellSlots (map resources (characters (combatState (snd (snd (processAction env0 castMagicMissile ?w))))))"
    by simp
  also have "\<dots> = [[(1, \<lparr>current = 2, maximum = 2\<rparr>)], []]"
    by (simp only: processAction_resources before) simp
  finally have after: "map (spellSlots \<circ> resources) (characters (combatState (snd (snd (processAction env0 castMagicMissile ?w)))))
      = [[(1, \<lparr>current = 2, maximum = 2\<rparr>)], []]" .
  have "map (spellSlots \<circ> resources) (characters (combatState ?w)) = [[(1, \<lparr>current = 2, maximum = 2\<rparr>)], []]"
    using before by (simp flip: map_map)
  then show ?thesis
    using lvl ok after by (simp only: simp_thms)
qed

section \<open>Pathfinding on an open board\<close>

subsection \<open>Neighbours and the step towards the goal\<close>

lemma directions_iff:
  "(\<exists>d \<in> set directions. qx = px + fst d \<and> qy = py + snd d)
      \<longleftrightarrow> (qx \<noteq> px \<or> qy \<noteq> py) \<and> \<bar>qx - px\<bar> \<le> 1 \<and> \<bar>qy - py\<bar> \<le> 1"
  unfolding directions_def by (simp add: abs_le_iff) presburger

lemma getNeighbors_iff:
  "q \<in> set (getNeighbors p bf) \<longleftrightarrow>
     inBounds bf q \<and> q \<noteq> p \<and> \<bar>pos_x q - pos_x p\<bar> \<le> 1 \<and> \<bar>pos_y q - pos_y p\<bar> \<le> 1"
proof -
  obtain px py where p: "p = Position px py" by (cases p)
  obtain qx qy where q: "q = Position qx qy" by (cases q)
  have "q \<in> set (getNeighbors p bf) \<longleftrightarrow>
      inBounds bf q \<and> (\<exists>d \<in> set directions. qx = px + fst d \<and> qy = py + snd d)"
    unfolding getNeighbors_def p q by (simp add: image_iff split_beta) blast
  then show ?thesis
    unfolding directions_iff by (simp add: p q)
qed

lemma isPositionBlocked_open: "openBoard cs ex \<Longrightarrow> \<not> isPositionBlocked q cs ex"
  by (auto simp add: openBoard_def isPositionBlocked_def list_ex_iff list_all_iff)

lemma step_abs:
  fixes p b :: int
  shows "\<bar>p + sgn (b - p) - b\<bar> = (if p = b then 0 else \<bar>p - b\<bar> - 1)"
  by (simp add: sgn_if)

lemma step_arith_manhattan:
  fixes px py bx "by" :: int
  assumes "px \<noteq> bx \<or> py \<noteq> by"
  shows "\<bar>px + sgn (bx - px) - bx\<bar> + \<bar>py + sgn (by - py) - by\<bar> < \<bar>px - bx\<bar> + \<bar>py - by\<bar>"
  unfolding step_abs using assms by (simp split: if_splits)

lemma step_arith_chebyshev:
  fixes px py bx "by" :: int
  assumes "px \<noteq> bx \<or> py \<noteq> by"
  shows "max \<bar>px + sgn (bx - px) - bx\<bar> \<bar>py + sgn (by - py) - by\<bar> = max \<bar>px - bx\<bar> \<bar>py - by\<bar> - 1"
  unfolding step_abs using assms by (auto simp add: max_def split: if_splits)

lemma step_eq_iff:
  fixes p b q :: int
  assumes "\<bar>q - p\<bar> \<le> 1"
  shows "q = p + sgn (b - p) \<longleftrightarrow> (if p = b then q = p else \<bar>q - b\<bar> = \<bar>p - b\<bar> - 1)"
  using assms by (simp add: sgn_if) linarith

lemma near_abs:
  fixes p b q :: int
  assumes "\<bar>q - p\<bar> \<le> 1"
  shows "\<bar>p - b\<bar> - 1 \<le> \<bar>q - b\<bar>"
  using assms by linarith

lemma step_arith_best:
  fixes px py bx "by" qx qy :: int
  assumes "\<bar>qx - px\<bar> \<le> 1" and "\<bar>qy - py\<bar> \<le> 1"
    and "qx \<noteq> px + sgn (bx - px) \<or> qy \<noteq> py + sgn (by - py)"
    and "px \<noteq> bx \<or> py \<noteq> by"
  shows "\<bar>px + sgn (bx - px) - bx\<bar> + \<bar>py + sgn (by - py) - by\<bar> < \<bar>qx - bx\<bar> + \<bar>qy - by\<bar>"
proof -
  note qx = near_abs [OF assms(1), of bx] and qy = near_abs [OF assms(2), of "by"]
  have ax: "0 \<le> \<bar>qx - bx\<bar>" and ay: "0 \<le> \<bar>qy - by\<bar>" by simp_all
  from assms(3) have d: "\<not> (if px = bx then qx = px else \<bar>qx - bx\<bar> = \<bar>px - bx\<bar> - 1)
      \<or> \<not> (if py = by then qy = py else \<bar>qy - by\<bar> = \<bar>py - by\<bar> - 1)"
    unfolding step_eq_iff [OF assms(1)] step_eq_iff [OF assms(2)] .
  show ?thesis
    unfolding step_abs using d assms(4) qx qy ax ay
    by (simp split: if_splits) linarith+
qed

lemma stepToward_neighbor:
  assumes "inBounds bf p" and "inBounds bf b" and "p \<noteq> b"
  shows "stepToward b p \<in> set (getNeighbors p bf)"
proof -
  obtain px py where p: "p = Position px py" by (cases p)
  obtain bx "by" where b: "b = Position bx by" by (cases b)
  have "\<bar>sgn (bx - px)\<bar> \<le> 1" "\<bar>sgn (by - py)\<bar> \<le> 1"
    by (simp_all add: sgn_if)
  moreover have "sgn (bx - px) \<noteq> 0 \<or> sgn (by - py) \<noteq> 0"
    using assms(3) by (auto simp add: p b sgn_if)
  moreover have "0 \<le> px + sgn (bx - px)" "px + sgn (bx - px) < width bf"
    "0 \<le> py + sgn (by - py)" "py + sgn (by - py) < height bf"
    using assms(1,2) by (simp_all add: p b inBounds_def sgn_if)
  ultimately show ?thesis
    by (simp add: getNeighbors_iff stepToward_def p b inBounds_def)
qed

lemma stepToward_inBounds:
  "inBounds bf p \<Longrightarrow> inBounds bf b \<Longrightarrow> p \<noteq> b \<Longrightarrow> inBounds bf (stepToward b p)"
  using stepToward_neighbor [of bf p b] by (simp add: getNeighbors_iff)

lemma stepToward_manhattan:
  "p \<noteq> b \<Longrightarrow> calculateDistance (stepToward b p) b < calculateDistance p b"
  by (cases p; cases b) (simp add: stepToward_def calculateDistance_def step_arith_manhattan)

lemma stepToward_chebyshev:
  "p \<noteq> b \<Longrightarrow> chebyshevDistance (stepToward b p) b = chebyshevDistance p b - 1"
  by (cases p; cases b) (simp add: stepToward_def chebyshevDistance_def step_arith_chebyshev)

lemma stepToward_best:
  assumes "q \<in> set (getNeighbors p bf)" and "q \<noteq> stepToward b p" and "p \<noteq> b"
  shows "calculateDistance (stepToward b p) b < calculateDistance q b"
proof -
  obtain px py where p: "p = Position px py" by (cases p)
  obtain bx "by" where b: "b = Position bx by" by (cases b)
  obtain qx qy where q: "q = Position qx qy" by (cases q)
  from assms(1) have n: "\<bar>qx - px\<bar> \<le> 1" "\<bar>qy - py\<bar> \<le> 1"
    by (simp_all add: getNeighbors_iff p q)
  from assms(2) have d: "qx \<noteq> px + sgn (bx - px) \<or> qy \<noteq> py + sgn (by - py)"
    by (simp add: stepToward_def p q b)
  from assms(3) have ne: "px \<noteq> bx \<or> py \<noteq> by"
    by (simp add: p b)
  show ?thesis
    using step_arith_best [OF n d ne]
    by (simp add: stepToward_def calculateDistance_def p q b)
qed

lemma chebyshev_self [simp]: "chebyshevDistance b b = 0"
  by (simp add: chebyshevDistance_def)

lemma chebyshev_nonneg: "0 \<le> chebyshevDistance a b"
  by (simp add: chebyshevDistance_def)

lemma chebyshev_zero: "chebyshevDistance a b = 0 \<longleftrightarrow> a = b"
  by (cases a; cases b) (auto simp add: chebyshevDistance_def max_def split: if_splits)

subsection \<open>The search stays on the track\<close>

lemma nextNode_simps [simp]:
  "nodePosition (nextNode b N) = stepToward b (nodePosition N)"
  "gCost (nextNode b N) = gCost N + 1"
  "fCost (nextNode b N) = gCost N + 1 + calculateDistance (stepToward b (nodePosition N)) b"
  "reconstructPath (nextNode b N) = reconstructPath N @ [stepToward b (nodePosition N)]"
  by (simp_all add: nextNode_def Let_def)

lemma reconstructPath_last [simp]:
  "reconstructPath n \<noteq> []" "last (reconstructPath n) = nodePosition n"
  by (cases n; simp)+

lemma sort_least_first:
  assumes "N \<in> set xs" and "distinct (map nodePosition xs)"
    and "\<forall>n \<in> set xs. n \<noteq> N \<longrightarrow> fCost N < fCost n"
  shows "hd (sort_key fCost xs) = N"
    and "set (tl (sort_key fCost xs)) = set xs - {N}"
    and "distinct (map nodePosition (tl (sort_key fCost xs)))"
proof -
  let ?s = "sort_key fCost xs"
  have set_s: "set ?s = set xs" by simp
  have "?s \<noteq> []"
    using assms(1) by (metis set_s empty_iff empty_set)
  then obtain y ys where s: "?s = y # ys" by (cases ?s) auto
  have "sorted (map fCost ?s)" by (rule sorted_sort_key)
  then have le: "\<forall>z \<in> set ys. fCost y \<le> fCost z" by (simp add: s)
  have "y \<in> set xs" using set_s s by auto
  have "fCost y \<le> fCost N"
    using le assms(1) set_s s by auto
  then have y: "y = N"
    using assms(3) \<open>y \<in> set xs\<close> by force
  have "mset (map nodePosition ?s) = mset (map nodePosition xs)"
    by simp
  then have "distinct (map nodePosition ?s)"
    using assms(2) by (metis mset_eq_imp_distinct_iff)
  then have d: "distinct (map nodePosition ys)" "nodePosition y \<notin> nodePosition ` set ys"
    by (simp_all add: s)
  then have "y \<notin> set ys" by auto
  show "hd ?s = N" by (simp add: s y)
  show "set (tl ?s) = set xs - {N}"
    using set_s \<open>y \<notin> set ys\<close> by (auto simp add: s y)
  show "distinct (map nodePosition (tl ?s))"
    using d by (simp add: s)
qed

lemma visitNeighbor_fringe:
  assumes "fringe b N acc" and "q \<in> set (getNeighbors (nodePosition N) bf)"
    and "nodePosition N \<noteq> b" and "openBoard cs ex"
  shows "fringe b N (visitNeighbor cs ex b cl N acc q)"
    and "nodePosition ` set acc \<subseteq> nodePosition ` set (visitNeighbor cs ex b cl N acc q)"
    and "q \<notin> set cl \<Longrightarrow> q \<in> nodePosition ` set (visitNeighbor cs ex b cl N acc q)"
proof -
  let ?v = "visitNeighbor cs ex b cl N acc q"
  have free: "\<not> isPositionBlocked q cs ex"
    using assms(4) by (rule isPositionBlocked_open)
  show "nodePosition ` set acc \<subseteq> nodePosition ` set ?v"
    using assms(1)
    by (auto simp add: visitNeighbor_def Let_def fringe_def find_Some_iff split: option.splits)
  show "fringe b N ?v"
  proof (cases "find (\<lambda>n. nodePosition n = q) acc")
    case None
    then have new: "q \<notin> nodePosition ` set acc"
      by (auto simp add: find_None_iff)
    have best: "q \<noteq> stepToward b (nodePosition N) \<Longrightarrow>
        calculateDistance (stepToward b (nodePosition N)) b < calculateDistance q b"
      using stepToward_best [OF assms(2) _ assms(3)] by simp
    show ?thesis
      using assms(1) new best None
      by (auto simp add: visitNeighbor_def Let_def fringe_def nextNode_def free)
  next
    case (Some e)
    then have "e \<in> set acc"
      by (auto simp add: find_Some_iff in_set_conv_nth)
    then have "gCost e \<le> gCost N + 1"
      using assms(1) by (simp add: fringe_def)
    then show ?thesis
      using assms(1) Some by (simp add: visitNeighbor_def Let_def)
  qed
  show "q \<in> nodePosition ` set ?v" if "q \<notin> set cl"
  proof (cases "find (\<lambda>n. nodePosition n = q) acc")
    case None
    then show ?thesis
      using that by (simp add: visitNeighbor_def Let_def free)
  next
    case (Some e)
    then have e: "e \<in> set acc" "nodePosition e = q"
      by (auto simp add: find_Some_iff in_set_conv_nth)
    then have "gCost e \<le> gCost N + 1"
      using assms(1) by (simp add: fringe_def)
    then show ?thesis
      using that Some e by (auto simp add: visitNeighbor_def Let_def free)
  qed
qed

lemma foldl_visitNeighbor_fringe:
  assumes "fringe b N acc" and "set qs \<subseteq> set (getNeighbors (nodePosition N) bf)"
    and "nodePosition N \<noteq> b" and "openBoard cs ex"
  shows "fringe b N (foldl (visitNeighbor cs ex b cl N) acc qs)
    \<and> nodePosition ` set acc \<subseteq> nodePosition ` set (foldl (visitNeighbor cs ex b cl N) acc qs)
    \<and> (\<forall>q \<in> set qs. q \<notin> set cl \<longrightarrow>
          q \<in> nodePosition ` set (foldl (visitNeighbor cs ex b cl N) acc qs))"
  using assms(1,2)
proof (induction qs arbitrary: acc)
  case Nil
  then show ?case by simp
next
  case (Cons q qs)
  let ?acc = "visitNeighbor cs ex b cl N acc q"
  have q: "q \<in> set (getNeighbors (nodePosition N) bf)"
    using Cons.prems(2) by simp
  note v = visitNeighbor_fringe [OF Cons.prems(1) q assms(3,4), of cl]
  have ih: "fringe b N (foldl (visitNeighbor cs ex b cl N) ?acc qs)
    \<and> nodePosition ` set ?acc \<subseteq> nodePosition ` set (foldl (visitNeighbor cs ex b cl N) ?acc qs)
    \<and> (\<forall>q \<in> set qs. q \<notin> set cl \<longrightarrow>
          q \<in> nodePosition ` set (foldl (visitNeighbor cs ex b cl N) ?acc qs))"
    using Cons.IH [OF v(1)] Cons.prems(2) by simp
  show ?case
    using ih v(2,3) by auto
qed

lemma onTrack_step:
  assumes inv: "onTrack bf a b N openSet cl" and b: "inBounds bf b"
    and board: "openBoard cs ex" and ne: "nodePosition N \<noteq> b"
  shows "onTrack bf a b (nextNode b N)
           (foldl (visitNeighbor cs ex b (nodePosition N # cl) N) (tl (sort_key fCost openSet))
              (getNeighbors (nodePosition N) bf))
           (nodePosition N # cl)"
proof -
  let ?p = "nodePosition N"
  let ?s = "stepToward b ?p"
  let ?rest = "tl (sort_key fCost openSet)"
  let ?cl = "?p # cl"
  let ?open = "foldl (visitNeighbor cs ex b ?cl N) ?rest (getNeighbors ?p bf)"
  from inv have N: "N \<in> set openSet" and dist: "distinct (map nodePosition openSet)"
    and pin: "inBounds bf ?p" and g0: "0 \<le> gCost N"
    and cheb: "gCost N + chebyshevDistance ?p b = chebyshevDistance a b"
    and len: "int (length (reconstructPath N)) = gCost N + 1"
    and hd: "hd (reconstructPath N) = a"
    and nodes: "\<forall>n \<in> set openSet. gCost n \<le> gCost N
           \<and> fCost n = gCost n + calculateDistance (nodePosition n) b
           \<and> (n \<noteq> N \<longrightarrow> fCost N < fCost n)"
    and far: "\<forall>q \<in> set cl. calculateDistance ?p b < calculateDistance q b"
    unfolding onTrack_def by blast+
  have least: "\<forall>n \<in> set openSet. n \<noteq> N \<longrightarrow> fCost N < fCost n"
    using nodes by blast
  note srt = sort_least_first [OF N dist least]
  have closer: "calculateDistance ?s b < calculateDistance ?p b"
    using ne by (rule stepToward_manhattan)
  have fN: "fCost N = gCost N + calculateDistance ?p b"
    using nodes N by blast
  have rest: "fringe b N ?rest"
    unfolding fringe_def
  proof (intro conjI ballI)
    show "distinct (map nodePosition ?rest)" by (rule srt(3))
  next
    fix n assume "n \<in> set ?rest"
    then have n: "n \<in> set openSet" "n \<noteq> N"
      using srt(2) by auto
    then have gn: "gCost n \<le> gCost N"
      and fn: "fCost n = gCost n + calculateDistance (nodePosition n) b"
      and lt: "fCost N < fCost n"
      using nodes by blast+
    show "gCost n \<le> gCost N + 1" using gn by simp
    show "fCost n = gCost n + calculateDistance (nodePosition n) b" by (rule fn)
    show "nodePosition n = ?s \<longrightarrow> n = nextNode b N"
      using gn fn lt fN closer by auto
    show "nodePosition n \<noteq> ?s \<longrightarrow> fCost (nextNode b N) < fCost n"
      using lt fN closer by simp
  qed
  note fold = foldl_visitNeighbor_fringe [where bf = bf and cl = ?cl, OF rest subset_refl ne board]
  then have fr: "fringe b N ?open"
    and reach: "\<forall>q \<in> set (getNeighbors ?p bf). q \<notin> set ?cl \<longrightarrow> q \<in> nodePosition ` set ?open"
    by blast+
  have s_nb: "?s \<in> set (getNeighbors ?p bf)"
    using pin b ne by (rule stepToward_neighbor)
  have s_open: "?s \<notin> set ?cl"
    using far closer by auto
  have "?s \<in> nodePosition ` set ?open"
    using reach s_nb s_open by blast
  then obtain n where n: "n \<in> set ?open" "nodePosition n = ?s"
    by auto
  then have "n = nextNode b N"
    using fr by (simp add: fringe_def)
  then have mem: "nextNode b N \<in> set ?open"
    using n by simp
  have others: "\<forall>n \<in> set ?open. gCost n \<le> gCost (nextNode b N)
           \<and> fCost n = gCost n + calculateDistance (nodePosition n) b
           \<and> (n \<noteq> nextNode b N \<longrightarrow> fCost (nextNode b N) < fCost n)"
    using fr unfolding fringe_def by (metis nextNode_simps(2))
  show ?thesis
    unfolding onTrack_def
  proof (intro conjI)
    show "nextNode b N \<in> set ?open" by (rule mem)
    show "distinct (map nodePosition ?open)" using fr by (simp add: fringe_def)
    show "inBounds bf (nodePosition (nextNode b N))"
      using pin b ne by (simp add: stepToward_inBounds)
    show "0 \<le> gCost (nextNode b N)" using g0 by simp
    show "gCost (nextNode b N) + chebyshevDistance (nodePosition (nextNode b N)) b = chebyshevDistance a b"
      using cheb ne by (simp add: stepToward_chebyshev)
    show "int (length (reconstructPath (nextNode b N))) = gCost (nextNode b N) + 1"
      using len by simp
    show "hd (reconstructPath (nextNode b N)) = a"
      using hd by simp
    show "\<forall>n \<in> set ?open. gCost n \<le> gCost (nextNode b N)
           \<and> fCost n = gCost n + calculateDistance (nodePosition n) b
           \<and> (n \<noteq> nextNode b N \<longrightarrow> fCost (nextNode b N) < fCost n)"
      by (rule others)
    show "\<forall>q \<in> set ?cl. calculateDistance (nodePosition (nextNode b N)) b < calculateDistance q b"
      using far closer by auto
  qed
qed

lemma search_on_track:
  assumes "onTrack (battlefield cs) a b N openSet cl" and "inBounds (battlefield cs) b"
    and "openBoard cs ex"
  shows "\<exists>path. findPath_loop cs ex b openSet cl = Some (Some path)
           \<and> int (length path) = chebyshevDistance a b + 1
           \<and> hd path = a \<and> last path = b"
  using assms(1)
proof (induction "nat (chebyshevDistance (nodePosition N) b)" arbitrary: N openSet cl)
  case 0
  then have at_goal: "nodePosition N = b"
    using chebyshev_nonneg [of "nodePosition N" b] by (simp add: chebyshev_zero)
  from "0.prems" have N: "N \<in> set openSet" and dist: "distinct (map nodePosition openSet)"
    and least: "\<forall>n \<in> set openSet. n \<noteq> N \<longrightarrow> fCost N < fCost n"
    and cheb: "gCost N + chebyshevDistance (nodePosition N) b = chebyshevDistance a b"
    and len: "int (length (reconstructPath N)) = gCost N + 1"
    and hd: "hd (reconstructPath N) = a"
    unfolding onTrack_def by blast+
  have first: "hd (sort_key fCost openSet) = N"
    using N dist least by (rule sort_least_first(1))
  have "openSet \<noteq> []" using N by auto
  then have "findPath_loop cs ex b openSet cl = Some (Some (reconstructPath N))"
    by (subst findPath_loop.simps) (simp add: Let_def first at_goal)
  then show ?case
    using cheb len hd at_goal by simp
next
  case (Suc k)
  then have away: "nodePosition N \<noteq> b"
    by auto
  from Suc.prems have N: "N \<in> set openSet" and dist: "distinct (map nodePosition openSet)"
    and least: "\<forall>n \<in> set openSet. n \<noteq> N \<longrightarrow> fCost N < fCost n"
    unfolding onTrack_def by blast+
  have first: "hd (sort_key fCost openSet) = N"
    using N dist least by (rule sort_least_first(1))
  have "openSet \<noteq> []" using N by auto
  let ?cl = "nodePosition N # cl"
  let ?open = "foldl (visitNeighbor cs ex b ?cl N) (tl (sort_key fCost openSet))
              (getNeighbors (nodePosition N) (battlefield cs))"
  have unfold: "findPath_loop cs ex b openSet cl = findPath_loop cs ex b ?open ?cl"
    using \<open>openSet \<noteq> []\<close> away
    by (subst findPath_loop.simps) (simp add: Let_def first)
  have next_inv: "onTrack (battlefield cs) a b (nextNode b N) ?open ?cl"
    using Suc.prems assms(2,3) away by (rule onTrack_step)
  have "k = nat (chebyshevDistance (nodePosition (nextNode b N)) b)"
    using Suc.hyps(2) away by (simp add: stepToward_chebyshev)
  from Suc.hyps(1) [OF this next_inv] show ?case
    by (simp only: unfold)
qed

lemma findPath_open_board:
  assumes "openBoard cs ex" and "inBounds (battlefield cs) a" and "inBounds (battlefield cs) b"
  shows "\<exists>path. findPath a b cs ex = Some (Some path)
           \<and> int (length path) - 1 = chebyshevDistance a b
           \<and> hd path = a \<and> last path = b"
proof -
  let ?start = "PathNode a 0 (calculateDistance a b) (0 + calculateDistance a b) None"
  have "onTrack (battlefield cs) a b ?start [?start] []"
    using assms(2) by (simp add: onTrack_def)
  from search_on_track [OF this assms(3,1)] show ?thesis
    by (auto simp add: findPath_def)
qed

subsection \<open>Path length\<close>

text \<open>
  C7, as the code has it. On a battlefield with no obstacles and no living character other
  than the excluded one, between any two cells within bounds \<open>findPath\<close> returns a path
  from the first to the second whose number of steps is the larger of the two coordinate
  differences: a diagonal step costs one, like a straight one.
\<close>

theorem findPath_open_board_steps:
  assumes "openBoard cs ex" and "inBounds (battlefield cs) a" and "inBounds (battlefield cs) b"
  shows "\<exists>path. findPath a b cs ex = Some (Some path)
           \<and> int (length path) - 1 = max \<bar>pos_x a - pos_x b\<bar> \<bar>pos_y a - pos_y b\<bar>
           \<and> hd path = a \<and> last path = b"
  using findPath_open_board [OF assms] by (simp add: chebyshevDistance_def)

text \<open>
  The step count is the Manhattan distance when the two cells share a row or a column.
\<close>

lemma findPath_same_row_or_column:
  assumes "openBoard cs ex" and "inBounds (battlefield cs) a" and "inBounds (battlefield cs) b"
    and "pos_x a = pos_x b \<or> pos_y a = pos_y b"
  shows "\<exists>path. findPath a b cs ex = Some (Some path)
           \<and> int (length path) - 1 = calculateDistance a b"
  using findPath_open_board [OF assms(1-3)] assms(4)
  by (auto simp add: chebyshevDistance_def calculateDistance_def)

theorem findPath_open_board_steps_witness:
  "openBoard (board 5 5 []) None
   \<and> inBounds (battlefield (board 5 5 [])) (Position 0 0)
   \<and> inBounds (battlefield (board 5 5 [])) (Position 3 1)
   \<and> (\<exists>path. findPath (Position 0 0) (Position 3 1) (board 5 5 []) None = Some (Some path)
         \<and> int (length path) - 1 = 3 \<and> hd path = Position 0 0 \<and> last path = Position 3 1)"
proof -
  have h: "openBoard (board 5 5 []) None"
    "inBounds (battlefield (board 5 5 [])) (Position 0 0)"
    "inBounds (battlefield (board 5 5 [])) (Position 3 1)"
    by (simp_all add: openBoard_def board_def inBounds_def)
  show ?thesis
    using findPath_open_board_steps [OF h] h by simp
qed

text \<open>
  C7, as the claim states it, fails: on an empty 2 by 2 board the path from \<open>(0, 0)\<close> to
  \<open>(1, 1)\<close> is the one diagonal step, and the Manhattan distance is 2.
\<close>

theorem diagonal_path_is_one_step:
  "openBoard (board 2 2 []) None
   \<and> inBounds (battlefield (board 2 2 [])) (Position 0 0)
   \<and> inBounds (battlefield (board 2 2 [])) (Position 1 1)
   \<and> findPath (Position 0 0) (Position 1 1) (board 2 2 []) None
       = Some (Some [Position 0 0, Position 1 1])
   \<and> \<bar>pos_x (Position 0 0) - pos_x (Position 1 1)\<bar> + \<bar>pos_y (Position 0 0) - pos_y (Position 1 1)\<bar> = 2"
proof -
  let ?cs = "board 2 2 []"
  let ?a = "Position 0 0" and ?b = "Position 1 1"
  let ?n0 = "PathNode ?a 0 2 2 None"
  have h: "openBoard ?cs None" "inBounds (battlefield ?cs) ?a" "inBounds (battlefield ?cs) ?b"
    by (simp_all add: openBoard_def board_def inBounds_def)
  have free: "\<And>q. \<not> isPositionBlocked q ?cs None"
    by (simp add: isPositionBlocked_def board_def)
  have nb: "getNeighbors ?a (battlefield ?cs) = [Position 1 0, Position 0 1, Position 1 1]"
    by (simp add: getNeighbors_def directions_def inBounds_def board_def)
  have "findPath ?a ?b ?cs None = findPath_loop ?cs None ?b [?n0] []"
    by (simp add: findPath_def calculateDistance_def)
  also have "\<dots> = findPath_loop ?cs None ?b
      [PathNode (Position 1 0) 1 1 2 (Some ?n0), PathNode (Position 0 1) 1 1 2 (Some ?n0),
       PathNode ?b 1 0 1 (Some ?n0)] [?a]"
    by (subst findPath_loop.simps)
      (simp add: Let_def nb visitNeighbor_def free calculateDistance_def)
  also have "\<dots> = Some (Some [?a, ?b])"
    by (subst findPath_loop.simps) (simp add: Let_def)
  finally show ?thesis
    using h by simp
qed

end
